theory Spec2Isabelle
  imports Complex_Main "HOL-Library.AList"
begin

section \<open>Attendance tracking service: status report of \<open>app.py\<close>\<close>

text \<open>
  The development embeds the teacher dashboard route \<open>get_student_data\<close> of \<open>app.py\<close>
  together with the two ingestion routes that fill the event collection, and the pieces
  of the Python runtime they call (\<open>str.lower\<close>, \<open>str.title\<close>, \<open>dict.get\<close>,
  truthiness, naive \<open>datetime\<close> arithmetic and \<open>isoformat\<close>). What the program takes from
  outside itself is a parameter of the model: the Unicode tables behind \<open>str.lower\<close> and
  \<open>str.title\<close>, and the store's verdict on a write.
\<close>

subsection \<open>Python values and exceptions\<close>

text \<open>
  A request body is parsed JSON and a stored document is whatever was posted, so the
  fields the route reads are dynamically typed. Dictionaries are association lists
  (JSON object keys are strings); numbers are integers or rationals, the latter standing
  for floats, of which the route only ever tests the truth value.
\<close>

datatype pyval =
    PNone
  | PBool bool
  | PInt int
  | PFloat rat
  | PStr string
  | PList "pyval list"
  | PDict "(string \<times> pyval) list"

datatype py_error = AttributeError | TypeError | OverflowError | DuplicateKeyError | PyMongoError

text \<open>Truth value of an object, as \<open>if x\<close> and \<open>A if x else B\<close> test it.\<close>

fun truthy :: "pyval \<Rightarrow> bool" where
  "truthy PNone = False"
| "truthy (PBool b) = b"
| "truthy (PInt i) = (i \<noteq> 0)"
| "truthy (PFloat r) = (r \<noteq> 0)"
| "truthy (PStr s) = (s \<noteq> [])"
| "truthy (PList xs) = (xs \<noteq> [])"
| "truthy (PDict kvs) = (kvs \<noteq> [])"

text \<open>\<open>d.get(k, default)\<close> on a dictionary.\<close>

definition dict_get :: "(string \<times> pyval) list \<Rightarrow> string \<Rightarrow> pyval \<Rightarrow> pyval" where
  "dict_get d k dflt = (case map_of d k of None \<Rightarrow> dflt | Some v \<Rightarrow> v)"

text \<open>Only lists and dictionaries among these values are unhashable (cannot be dict keys).\<close>

fun hashable :: "pyval \<Rightarrow> bool" where
  "hashable (PList xs) = False"
| "hashable (PDict kvs) = False"
| "hashable v = True"

subsection \<open>Strings: \<open>lower\<close> and \<open>title\<close>\<close>

text \<open>
  A string is a Python \<open>str\<close> in its UTF-8 encoding: an ASCII character is one
  \<open>char\<close> below 128, every other character a run of \<open>char\<close>s from 128 up. On a string
  of ASCII characters \<open>str.lower\<close> and \<open>str.title\<close> are the ASCII mappings written out
  below. On a string that has other characters they are what the Unicode character
  database of the interpreter makes them (full case mappings, context rules such as the
  final sigma). That database is no part of this program, so it is a parameter: a
  \<open>unicode_db\<close> gives the two methods on the strings that are not ASCII.
\<close>

record unicode_db =
  lower_nonascii :: "string \<Rightarrow> string"
  title_nonascii :: "string \<Rightarrow> string"

definition is_ascii :: "string \<Rightarrow> bool" where
  "is_ascii s = list_all (\<lambda>c. (of_char c :: nat) < 128) s"

definition is_upper :: "char \<Rightarrow> bool" where
  "is_upper c = (65 \<le> (of_char c :: nat) \<and> (of_char c :: nat) \<le> 90)"

definition is_lower :: "char \<Rightarrow> bool" where
  "is_lower c = (97 \<le> (of_char c :: nat) \<and> (of_char c :: nat) \<le> 122)"

definition is_cased :: "char \<Rightarrow> bool" where
  "is_cased c = (is_upper c \<or> is_lower c)"

definition ch_lower :: "char \<Rightarrow> char" where
  "ch_lower c = (if is_upper c then char_of ((of_char c :: nat) + 32) else c)"

definition ch_upper :: "char \<Rightarrow> char" where
  "ch_upper c = (if is_lower c then char_of ((of_char c :: nat) - 32) else c)"

definition str_lower :: "unicode_db \<Rightarrow> string \<Rightarrow> string" where
  "str_lower ucd s = (if is_ascii s then map ch_lower s else lower_nonascii ucd s)"

text \<open>
  \<open>str.title\<close>: a character is upper-cased when the one before it is not a cased
  character (or there is none), lower-cased otherwise.
\<close>

fun title_from :: "bool \<Rightarrow> string \<Rightarrow> string" where
  "title_from previous_is_cased [] = []"
| "title_from previous_is_cased (c # cs) =
     (if previous_is_cased then ch_lower c else ch_upper c) # title_from (is_cased c) cs"

definition str_title :: "unicode_db \<Rightarrow> string \<Rightarrow> string" where
  "str_title ucd s = (if is_ascii s then title_from False s else title_nonascii ucd s)"

text \<open>
  A database for the examples. It holds the entries of U+212A KELVIN SIGN (UTF-8 bytes
  E2 84 AA): its lowercase mapping is U+006B, the letter \<open>k\<close>, and it has no titlecase
  mapping, so that it is its own title case. On every other string it is the identity,
  which is not what Unicode says; the examples use it on ASCII strings, where it is not
  consulted, and on the Kelvin sign only.
\<close>

definition kelvin_sign :: string where
  "kelvin_sign = [CHR 0xE2, CHR 0x84, CHR 0xAA]"

definition ucd_sample :: unicode_db where
  "ucd_sample =
     \<lparr>lower_nonascii = (\<lambda>s. if s = kelvin_sign then ''k'' else s),
      title_nonascii = (\<lambda>s. s)\<rparr>"

subsection \<open>Naive datetimes\<close>

text \<open>
  A naive \<open>datetime\<close> is represented by its number of microseconds since
  0001-01-01T00:00:00; the representable ones are those from \<open>0\<close> up to, excluding,
  \<open>dt_limit\<close> (the end of the year 9999). Comparison is comparison of these numbers, a
  \<open>timedelta\<close> is a number of microseconds, and \<open>datetime + timedelta\<close> raises
  \<open>OverflowError\<close> when the sum is not representable.
\<close>

type_synonym datetime = int
type_synonym timedelta = int

definition US_PER_DAY :: int where
  "US_PER_DAY = 86400000000"

definition MAXORDINAL :: int where
  "MAXORDINAL = 3652059"

definition dt_limit :: int where
  "dt_limit = MAXORDINAL * US_PER_DAY"

definition timedelta_of :: "int \<Rightarrow> int \<Rightarrow> timedelta" where
  "timedelta_of hours minutes = (hours * 3600 + minutes * 60) * 1000000"

definition datetime_add :: "datetime \<Rightarrow> timedelta \<Rightarrow> py_error + datetime" where
  "datetime_add t d =
     (let r = t + d in if 0 \<le> r \<and> r < dt_limit then Inr r else Inl OverflowError)"

definition representable :: "datetime \<Rightarrow> bool" where
  "representable t = (0 \<le> t \<and> t < dt_limit)"

definition datetime_sub :: "datetime \<Rightarrow> timedelta \<Rightarrow> py_error + datetime" where
  "datetime_sub t d = datetime_add t (- d)"

text \<open>The proleptic Gregorian calendar of the \<open>datetime\<close> module.\<close>

definition is_leap :: "int \<Rightarrow> bool" where
  "is_leap year = (year mod 4 = 0 \<and> (year mod 100 \<noteq> 0 \<or> year mod 400 = 0))"

definition DAYS_IN_MONTH :: "int list" where
  "DAYS_IN_MONTH = [-1, 31, 28, 31, 30, 31, 30, 31, 31, 30, 31, 30, 31]"

definition DAYS_BEFORE_MONTH :: "int list" where
  "DAYS_BEFORE_MONTH = [-1, 0, 31, 59, 90, 120, 151, 181, 212, 243, 273, 304, 334]"

definition days_before_year :: "int \<Rightarrow> int" where
  "days_before_year year =
     (let y = year - 1 in y * 365 + y div 4 - y div 100 + y div 400)"

definition days_before_month :: "int \<Rightarrow> nat \<Rightarrow> int" where
  "days_before_month year month =
     DAYS_BEFORE_MONTH ! month + (if month > 2 \<and> is_leap year then 1 else 0)"

definition ymd2ord :: "int \<Rightarrow> nat \<Rightarrow> int \<Rightarrow> int" where
  "ymd2ord year month day = days_before_year year + days_before_month year month + day"

definition DI400Y :: int where "DI400Y = 146097"
definition DI100Y :: int where "DI100Y = 36524"
definition DI4Y :: int where "DI4Y = 1461"

definition ord2ymd :: "int \<Rightarrow> int \<times> nat \<times> int" where
  "ord2ymd ordinal =
     (let n = ordinal - 1;
          n400 = n div DI400Y; n = n mod DI400Y;
          year = n400 * 400 + 1;
          n100 = n div DI100Y; n = n mod DI100Y;
          n4 = n div DI4Y; n = n mod DI4Y;
          n1 = n div 365; n = n mod 365;
          year = year + n100 * 100 + n4 * 4 + n1
      in if n1 = 4 \<or> n100 = 4 then (year - 1, 12, 31)
         else
           let leapyear = (n1 = 3 \<and> (n4 \<noteq> 24 \<or> n100 = 3));
               month = nat ((n + 50) div 32);
               preceding = DAYS_BEFORE_MONTH ! month + (if month > 2 \<and> leapyear then 1 else 0)
           in if preceding > n
              then let month = month - 1;
                       preceding = preceding -
                         (DAYS_IN_MONTH ! month + (if month = 2 \<and> leapyear then 1 else 0))
                   in (year, month, n - preceding + 1)
              else (year, month, n - preceding + 1))"

text \<open>The constructor \<open>datetime(year, month, day, hour, minute, second, microsecond)\<close>.\<close>

definition mk_datetime :: "int \<Rightarrow> nat \<Rightarrow> int \<Rightarrow> int \<Rightarrow> int \<Rightarrow> int \<Rightarrow> int \<Rightarrow> datetime" where
  "mk_datetime year month day hour minute second microsecond =
     (ymd2ord year month day - 1) * US_PER_DAY
       + ((hour * 60 + minute) * 60 + second) * 1000000 + microsecond"

text \<open>Decimal rendering of a number, zero-padded to a width: \<open>'%0wd' % n\<close>.\<close>

definition digit_char :: "nat \<Rightarrow> char" where
  "digit_char d = char_of (48 + d)"

fun dec_str :: "nat \<Rightarrow> string" where
  "dec_str n = (if n < 10 then [digit_char n] else dec_str (n div 10) @ [digit_char (n mod 10)])"

declare dec_str.simps [simp del]

definition zpad :: "nat \<Rightarrow> nat \<Rightarrow> string" where
  "zpad w n = replicate (w - length (dec_str n)) (CHR ''0'') @ dec_str n"

text \<open>
  \<open>datetime.isoformat()\<close> of a naive datetime: date, \<open>T\<close>, time, and the microseconds
  only when they are not zero. There is no offset suffix.
\<close>

definition isoformat :: "datetime \<Rightarrow> string" where
  "isoformat t =
     (let (year, month, day) = ord2ymd (t div US_PER_DAY + 1);
          us_of_day = t mod US_PER_DAY;
          hour = us_of_day div 3600000000;
          minute = us_of_day div 60000000 mod 60;
          second = us_of_day div 1000000 mod 60;
          microsecond = us_of_day mod 1000000
      in zpad 4 (nat year) @ ''-'' @ zpad 2 month @ ''-'' @ zpad 2 (nat day) @ ''T''
           @ zpad 2 (nat hour) @ '':'' @ zpad 2 (nat minute) @ '':'' @ zpad 2 (nat second)
           @ (if microsecond \<noteq> 0 then ''.'' @ zpad 6 (nat microsecond) else []))"

subsection \<open>Configuration, users, events and report rows\<close>

definition ACTIVITY_TIMEOUT_MINUTES :: int where
  "ACTIVITY_TIMEOUT_MINUTES = 5"

definition IST_OFFSET :: timedelta where
  "IST_OFFSET = timedelta_of 5 30"

record user =
  uid :: string
  uname :: string
  role :: string
  password :: string

text \<open>\<open>MOCK_USERS\<close>: a dictionary from login name to user data, in insertion order.\<close>

definition MOCK_USERS :: "(string \<times> user) list" where
  "MOCK_USERS =
     [(''Leni'', \<lparr>uid = ''MCA-428'', uname = ''Leni E'', role = ''student'', password = ''123''\<rparr>),
      (''teacher'', \<lparr>uid = ''tch-99b3'', uname = ''Professor Jenifer Jose'', role = ''teacher'',
                    password = ''admin''\<rparr>),
      (''Soni'', \<lparr>uid = ''MCA-112'', uname = ''Soni Priya'', role = ''student'', password = ''123''\<rparr>)]"

text \<open>
  A stored event: the posted document with the \<open>server_timestamp\<close> the route assigns.
  \<open>doc_id\<close> is the \<open>_id\<close> that the client posted, \<open>None\<close> when there was none and the
  driver generated an \<open>ObjectId\<close> (which equals no posted value and no other generated
  one); \<open>other_fields\<close> are the posted keys that no route reads.
\<close>

record event =
  doc_id :: "pyval option"
  other_fields :: "(string \<times> pyval) list"
  user_id :: pyval
  event_type :: pyval
  metadata :: pyval
  server_timestamp :: datetime

record row =
  row_id :: string
  row_name :: string
  status :: string
  focus :: string
  last_event :: pyval
  timestamp :: string

subsection \<open>The body of the report loop\<close>

text \<open>
  One iteration of \<open>for user_id, name in all_students.items()\<close>, for the event that
  \<open>latest_events_map.get(user_id)\<close> returned (the loop variable \<open>user_id\<close> is called
  \<open>student_id\<close> here, \<open>user_id\<close> being the field of an event). A stored document
  is a non-empty dictionary, so \<open>not event\<close> holds exactly when the lookup returned
  \<open>None\<close>. Calling \<open>.get\<close> on a \<open>metadata\<close> that is not a dictionary, or \<open>.lower()\<close> on
  a \<open>client_status\<close> that is not a string, raises \<open>AttributeError\<close>.
\<close>

definition student_row ::
  "unicode_db \<Rightarrow> datetime \<Rightarrow> string \<Rightarrow> string \<Rightarrow> event option \<Rightarrow> py_error + row" where
  "student_row ucd timeout_threshold student_id name ev =
     (case ev of
        None \<Rightarrow>
          Inr \<lparr>row_id = student_id, row_name = name, status = ''Never Logged In'',
               focus = ''N/A'', last_event = PStr ''None'', timestamp = ''N/A''\<rparr>
      | Some event \<Rightarrow>
          (case metadata event of
             PDict md \<Rightarrow>
               (case dict_get md ''client_status'' (PStr ''N/A'') of
                  PStr raw \<Rightarrow>
                    let client_status = str_lower ucd raw;
                        tab_focused = dict_get md ''tab_focused'' (PBool False);
                        (status, focus) =
                          (if client_status = ''logged_out'' then (''Logged Out'', ''N/A'')
                           else if server_timestamp event < timeout_threshold
                             then (''Offline (Inactive)'', ''N/A'')
                           else if client_status = ''active''
                             then (''Active'', if truthy tab_focused then ''Focused'' else ''Blurred'')
                           else if client_status = ''idle''
                             then (''Idle'', if truthy tab_focused then ''Focused'' else ''Blurred'')
                           else (''Unknown ('' @ str_title ucd client_status @ '')'', ''N/A''))
                    in (case datetime_add (server_timestamp event) IST_OFFSET of
                          Inl err \<Rightarrow> Inl err
                        | Inr ist_timestamp \<Rightarrow>
                            Inr \<lparr>row_id = student_id, row_name = name, status = status,
                                 focus = focus, last_event = event_type event,
                                 timestamp = isoformat ist_timestamp\<rparr>)
                | _ \<Rightarrow> Inl AttributeError)
           | _ \<Rightarrow> Inl AttributeError))"

text \<open>
  The shape of an event in the data model: \<open>user_id\<close> is a string, \<open>metadata\<close> is an
  object whose \<open>client_status\<close>, when present, is a string, and the timestamp can be
  displayed, that is, adding the display offset gives a representable datetime.
\<close>

definition well_typed :: "event \<Rightarrow> bool" where
  "well_typed e =
     ((case user_id e of PStr s \<Rightarrow> True | _ \<Rightarrow> False) \<and>
      (case metadata e of
         PDict md \<Rightarrow>
           (case dict_get md ''client_status'' (PStr ''N/A'') of PStr s \<Rightarrow> True | _ \<Rightarrow> False)
       | _ \<Rightarrow> False) \<and>
      representable (server_timestamp e + IST_OFFSET))"

subsection \<open>The event collection and the latest-event aggregation\<close>

text \<open>
  The collection is the list of stored events. A stored date keeps milliseconds only, so
  an event read back carries its timestamp truncated to the millisecond.
\<close>

definition bson_datetime :: "datetime \<Rightarrow> datetime" where
  "bson_datetime t = t - t mod 1000"

text \<open>An integer is stored in at most eight bytes; the driver refuses a larger one.\<close>

fun bson_encodable :: "pyval \<Rightarrow> bool" where
  "bson_encodable (PInt i) = (- (2 ^ 63) \<le> i \<and> i < 2 ^ 63)"
| "bson_encodable (PList xs) = list_all bson_encodable xs"
| "bson_encodable (PDict kvs) = list_all bson_encodable (map snd kvs)"
| "bson_encodable v = True"

definition document_values :: "event \<Rightarrow> pyval list" where
  "document_values document =
     (case doc_id document of None \<Rightarrow> [] | Some v \<Rightarrow> [v])
       @ [user_id document, event_type document, metadata document]
       @ map snd (other_fields document)"

text \<open>
  \<open>insert_one\<close> either appends the document or raises: \<open>OverflowError\<close> when the
  document holds an integer beyond eight bytes, \<open>DuplicateKeyError\<close> when its posted
  \<open>_id\<close> is that of a stored document. Whether the driver or the store refuses the
  write for any other reason (the server cannot be reached, a key or an \<open>_id\<close> that the
  store does not take, a document beyond its limits) is not decided by this program: it
  is the parameter \<open>store_accepts\<close> of the call, so that a run of the route is the model
  at some value of it, and what is proved for both values holds of every run.
\<close>

definition insert_one :: "bool \<Rightarrow> event \<Rightarrow> event list \<Rightarrow> py_error + event list" where
  "insert_one store_accepts document events =
     (if \<not> list_all bson_encodable (document_values document) then Inl OverflowError
      else if doc_id document \<noteq> None \<and> doc_id document \<in> doc_id ` set events
        then Inl DuplicateKeyError
      else if \<not> store_accepts then Inl PyMongoError
      else Inr (events @
                  [document\<lparr>server_timestamp := bson_datetime (server_timestamp document)\<rparr>]))"

text \<open>
  The \<open>$match\<close> stage \<open>{'user_id': {'$in': student_ids}}\<close>: the field equals one of
  the ids or, when it holds an array, one of the array's elements does.
\<close>

definition in_match :: "pyval \<Rightarrow> string list \<Rightarrow> bool" where
  "in_match v student_ids =
     (case v of
        PStr s \<Rightarrow> s \<in> set student_ids
      | PList xs \<Rightarrow> (\<exists>s \<in> set student_ids. PStr s \<in> set xs)
      | _ \<Rightarrow> False)"

text \<open>
  The \<open>$group\<close> stage with \<open>{'$first': '$$ROOT'}\<close>: one group per distinct \<open>user_id\<close>,
  holding the first document of the incoming order that has it.
\<close>

fun group_first :: "event list \<Rightarrow> (pyval \<times> event) list" where
  "group_first [] = []"
| "group_first (e # es) = (user_id e, e) # filter (\<lambda>g. fst g \<noteq> user_id e) (group_first es)"

text \<open>
  The pipeline: match, sort by \<open>server_timestamp\<close> descending, group. Among documents
  with equal timestamps the sort keeps the order of the collection; since theorems
  quantify over every collection, hence every order of it, they hold for whichever
  document the store puts first among such ties.
\<close>

definition aggregate :: "string list \<Rightarrow> event list \<Rightarrow> (pyval \<times> event) list" where
  "aggregate student_ids events =
     group_first (sort_key (\<lambda>e. - server_timestamp e)
                   (filter (\<lambda>e. in_match (user_id e) student_ids) events))"

text \<open>
  The loop \<open>latest_events_map[user_id] = event\<close> over the groups; a group key that is
  an array is a Python list, which cannot be a dictionary key. (The loop also turns the
  document's \<open>_id\<close> into a string, a key that the report never reads.)
\<close>

fun latest_events_loop ::
  "(pyval \<times> event) list \<Rightarrow> (pyval \<rightharpoonup> event) \<Rightarrow> py_error + (pyval \<rightharpoonup> event)" where
  "latest_events_loop [] latest_events_map = Inr latest_events_map"
| "latest_events_loop (event_group # rest) latest_events_map =
     (if hashable (fst event_group)
      then latest_events_loop rest (latest_events_map(fst event_group \<mapsto> snd event_group))
      else Inl TypeError)"

subsection \<open>The report\<close>

text \<open>
  \<open>all_students\<close>: the dictionary comprehension over \<open>MOCK_USERS.values()\<close>; a repeated
  id keeps its first position and takes the last name.
\<close>

definition all_students :: "(string \<times> user) list \<Rightarrow> (string \<times> string) list" where
  "all_students users =
     foldl (\<lambda>d user_data.
              if role user_data = ''student''
              then AList.update (uid user_data) (uname user_data) d else d)
       [] (map snd users)"

fun report_loop ::
  "unicode_db \<Rightarrow> datetime \<Rightarrow> (pyval \<rightharpoonup> event) \<Rightarrow> (string \<times> string) list
     \<Rightarrow> py_error + row list" where
  "report_loop ucd timeout_threshold latest_events_map [] = Inr []"
| "report_loop ucd timeout_threshold latest_events_map (student # rest) =
     (case student_row ucd timeout_threshold (fst student) (snd student)
             (latest_events_map (PStr (fst student))) of
        Inl err \<Rightarrow> Inl err
      | Inr r \<Rightarrow>
          (case report_loop ucd timeout_threshold latest_events_map rest of
             Inl err \<Rightarrow> Inl err
           | Inr status_report \<Rightarrow> Inr (r # status_report)))"

text \<open>The body of the \<open>try\<close> block of \<open>get_student_data\<close>, at the instant \<open>now\<close>.\<close>

definition student_report ::
  "unicode_db \<Rightarrow> (string \<times> user) list \<Rightarrow> event list \<Rightarrow> datetime \<Rightarrow> py_error + row list" where
  "student_report ucd users events now =
     (let students = all_students users;
          student_ids = map fst students
      in case latest_events_loop (aggregate student_ids events) Map.empty of
           Inl err \<Rightarrow> Inl err
         | Inr latest_events_map \<Rightarrow>
             (case datetime_sub now (timedelta_of 0 ACTIVITY_TIMEOUT_MINUTES) of
                Inl err \<Rightarrow> Inl err
              | Inr timeout_threshold \<Rightarrow>
                  report_loop ucd timeout_threshold latest_events_map students))"

text \<open>
  A response: the HTTP status, the \<open>success\<close> flag and, for the report, its rows.
  \<open>client_ok\<close> stands for the global \<open>client\<close> being set.
\<close>

datatype response = Response nat bool "row list option"

definition get_student_data ::
  "unicode_db \<Rightarrow> bool \<Rightarrow> (string \<times> user) list \<Rightarrow> event list \<Rightarrow> datetime \<Rightarrow> response" where
  "get_student_data ucd client_ok users events now =
     (if \<not> client_ok then Response 503 False None
      else case student_report ucd users events now of
             Inl err \<Rightarrow> Response 500 False None
           | Inr status_report \<Rightarrow> Response 200 True (Some status_report))"

subsection \<open>The ingestion routes\<close>

text \<open>
  The document that \<open>track_attendance\<close> hands to the store: the posted object with
  \<open>server_timestamp\<close> set to the instant \<open>now\<close>, over whatever was posted under that
  key.
\<close>

definition posted_event :: "(string \<times> pyval) list \<Rightarrow> datetime \<Rightarrow> event" where
  "posted_event data now =
     \<lparr>doc_id = map_of data ''_id'',
      other_fields =
        filter (\<lambda>kv. fst kv \<notin> set [''_id'', ''user_id'', ''event_type'', ''metadata'',
                                     ''server_timestamp'']) data,
      user_id = dict_get data ''user_id'' PNone,
      event_type = dict_get data ''event_type'' PNone,
      metadata = dict_get data ''metadata'' PNone,
      server_timestamp = now\<rparr>"

text \<open>
  \<open>track_attendance\<close> on a request body that is a JSON object, at the instant \<open>now\<close>;
  it returns the response and the collection. An exception of \<open>insert_one\<close> is caught
  and answered with 500, the collection unchanged.
\<close>

definition track_attendance ::
  "bool \<Rightarrow> bool \<Rightarrow> (string \<times> pyval) list \<Rightarrow> datetime \<Rightarrow> event list \<Rightarrow> response \<times> event list" where
  "track_attendance client_ok store_accepts data now events =
     (if \<not> client_ok then (Response 503 False None, events)
      else if \<not> list_all (\<lambda>k. k \<in> fst ` set data) [''user_id'', ''event_type'', ''metadata'']
        then (Response 400 False None, events)
      else case insert_one store_accepts (posted_event data now) events of
             Inl err \<Rightarrow> (Response 500 False None, events)
           | Inr stored \<Rightarrow> (Response 200 True None, stored))"

text \<open>
  \<open>logout_attendance\<close>; \<open>now1\<close> and \<open>now2\<close> are the instants of its two clock readings.
\<close>

definition logout_attendance ::
  "bool \<Rightarrow> bool \<Rightarrow> (string \<times> pyval) list \<Rightarrow> datetime \<Rightarrow> datetime \<Rightarrow> event list
     \<Rightarrow> response \<times> event list" where
  "logout_attendance client_ok store_accepts data now1 now2 events =
     (if \<not> client_ok then (Response 503 False None, events)
      else let user_id = dict_get data ''user_id'' PNone
           in if \<not> truthy user_id then (Response 400 False None, events)
              else case insert_one store_accepts
                          \<lparr>doc_id = None, other_fields = [],
                           user_id = user_id,
                           event_type = PStr ''logout'',
                           metadata = PDict [(''client_status'', PStr ''logged_out''),
                                             (''tab_focused'', PBool False),
                                             (''client_timestamp'', PStr (isoformat now1))],
                           server_timestamp = now2\<rparr> events of
                     Inl err \<Rightarrow> (Response 500 False None, events)
                   | Inr stored \<Rightarrow> (Response 200 True None, stored))"

subsection \<open>Auxiliary facts\<close>

lemma datetime_add_representable:
  "representable (t + d) \<Longrightarrow> datetime_add t d = Inr (t + d)"
  by (simp add: datetime_add_def representable_def)

lemma timeout_threshold_eq:
  "datetime_sub now (timedelta_of 0 ACTIVITY_TIMEOUT_MINUTES) = Inr thr
   \<Longrightarrow> thr = now - timedelta_of 0 5"
  by (auto simp: datetime_sub_def datetime_add_def ACTIVITY_TIMEOUT_MINUTES_def Let_def
           split: if_splits)

lemma ch_lower_idem: "ch_lower (ch_lower c) = ch_lower c"
  by (auto simp: ch_lower_def is_upper_def)

lemma ch_upper_lower: "ch_upper (ch_lower c) = ch_upper c"
  by (auto simp: ch_lower_def ch_upper_def is_upper_def is_lower_def)

lemma is_cased_lower: "is_cased (ch_lower c) = is_cased c"
  by (auto simp: ch_lower_def is_cased_def is_upper_def is_lower_def)

lemma title_from_lower: "title_from p (map ch_lower s) = title_from p s"
  by (induction s arbitrary: p)
     (simp_all add: ch_lower_idem ch_upper_lower is_cased_lower)

lemma is_ascii_lower: "is_ascii s \<Longrightarrow> is_ascii (map ch_lower s)"
  by (induction s) (auto simp: is_ascii_def ch_lower_def is_upper_def)

lemma str_title_lower: "is_ascii s \<Longrightarrow> str_title ucd (str_lower ucd s) = str_title ucd s"
  by (simp add: str_title_def str_lower_def title_from_lower is_ascii_lower)

text \<open>Concrete instants and strings used in the examples.\<close>

lemma new_year_2024: "mk_datetime 2024 1 1 0 0 0 0 = 63839664000000000"
  by code_simp

lemma IST_OFFSET_us: "IST_OFFSET = 19800000000"
  by (simp add: IST_OFFSET_def timedelta_of_def)

lemma five_minutes_us: "timedelta_of 0 5 = 300000000"
  by (simp add: timedelta_of_def)

lemma dt_limit_us: "dt_limit = 315537897600000000"
  by (simp add: dt_limit_def MAXORDINAL_def US_PER_DAY_def)

lemma isoformat_new_year_2024_ist: "isoformat 63839683800000000 = ''2024-01-01T05:30:00''"
  by code_simp

lemma ascii_examples:
  "is_ascii ''logged_out''" "is_ascii ''Active''" "is_ascii ''IDLE''" "is_ascii ''away''"
  "is_ascii ''N/A''" "is_ascii ''n/a''" "is_ascii ''k''"
  by code_simp+

lemma ascii_lower_examples:
  "map ch_lower ''logged_out'' = ''logged_out''"
  "map ch_lower ''Active'' = ''active''"
  "map ch_lower ''IDLE'' = ''idle''"
  "map ch_lower ''away'' = ''away''"
  "map ch_lower ''N/A'' = ''n/a''"
  by code_simp+

lemma ascii_title_examples:
  "title_from False ''away'' = ''Away''"
  "title_from False ''n/a'' = ''N/A''"
  "title_from False ''k'' = ''K''"
  by code_simp+

lemma lower_examples:
  "str_lower ucd ''logged_out'' = ''logged_out''"
  "str_lower ucd ''Active'' = ''active''"
  "str_lower ucd ''IDLE'' = ''idle''"
  "str_lower ucd ''away'' = ''away''"
  "str_lower ucd ''N/A'' = ''n/a''"
  unfolding str_lower_def by (simp_all only: ascii_examples ascii_lower_examples if_True)

lemma title_examples:
  "str_title ucd ''away'' = ''Away''"
  "str_title ucd ''n/a'' = ''N/A''"
  "str_title ucd ''k'' = ''K''"
  unfolding str_title_def by (simp_all only: ascii_examples ascii_title_examples if_True)

lemma student_row_Some:
  assumes "metadata e = PDict md"
    and "dict_get md ''client_status'' (PStr ''N/A'') = PStr raw"
    and "representable (server_timestamp e + IST_OFFSET)"
  shows "student_row ucd thr sid name (Some e) =
           Inr \<lparr>row_id = sid, row_name = name,
                status = (if str_lower ucd raw = ''logged_out'' then ''Logged Out''
                          else if server_timestamp e < thr then ''Offline (Inactive)''
                          else if str_lower ucd raw = ''active'' then ''Active''
                          else if str_lower ucd raw = ''idle'' then ''Idle''
                          else ''Unknown ('' @ str_title ucd (str_lower ucd raw) @ '')''),
                focus = (if str_lower ucd raw = ''logged_out'' then ''N/A''
                          else if server_timestamp e < thr then ''N/A''
                          else if str_lower ucd raw = ''active'' \<or> str_lower ucd raw = ''idle''
                            then (if truthy (dict_get md ''tab_focused'' (PBool False))
                                  then ''Focused'' else ''Blurred'')
                          else ''N/A''),
                last_event = event_type e,
                timestamp = isoformat (server_timestamp e + IST_OFFSET)\<rparr>"
  using assms by (simp add: student_row_def datetime_add_representable Let_def)

subsection \<open>The aggregation\<close>

lemma map_of_filter_other_key:
  "k \<noteq> a \<Longrightarrow> map_of (filter (\<lambda>g. fst g \<noteq> a) gs) k = map_of gs k"
  by (induction gs) auto

lemma map_of_group_first:
  "map_of (group_first es) k = List.find (\<lambda>e. user_id e = k) es"
  by (induction es) (auto simp: map_of_filter_other_key)

lemma group_first_keys: "fst ` set (group_first es) = user_id ` set es"
proof (rule set_eqI)
  fix k
  have "k \<in> fst ` set (group_first es) \<longleftrightarrow> map_of (group_first es) k \<noteq> None"
    by (simp add: map_of_eq_None_iff)
  also have "\<dots> \<longleftrightarrow> (\<exists>e. e \<in> set es \<and> user_id e = k)"
    by (simp add: map_of_group_first find_None_iff)
  also have "\<dots> \<longleftrightarrow> k \<in> user_id ` set es"
    by auto
  finally show "k \<in> fst ` set (group_first es) \<longleftrightarrow> k \<in> user_id ` set es" .
qed

lemma distinct_group_first: "distinct (map fst (group_first es))"
  by (induction es) (auto simp: distinct_map_filter)

lemma latest_events_loop_result:
  "distinct (map fst gs) \<Longrightarrow>
   latest_events_loop gs m =
     (if \<forall>g \<in> set gs. hashable (fst g) then Inr (m ++ map_of gs) else Inl TypeError)"
proof (induction gs arbitrary: m)
  case Nil
  then show ?case by simp
next
  case (Cons g gs)
  obtain k v where g: "g = (k, v)" by (cases g)
  have fresh_key: "map_of gs k = None"
    using Cons.prems g by (simp add: map_of_eq_None_iff)
  have eq: "m(k \<mapsto> v) ++ map_of gs = m ++ map_of (g # gs)"
    using fresh_key by (auto simp: g map_add_def fun_eq_iff split: option.splits)
  have IH: "latest_events_loop gs (m(k \<mapsto> v)) =
              (if \<forall>g \<in> set gs. hashable (fst g)
               then Inr (m(k \<mapsto> v) ++ map_of gs) else Inl TypeError)"
    using Cons by simp
  show ?case
  proof (cases "hashable k")
    case True
    have step: "latest_events_loop (g # gs) m = latest_events_loop gs (m(k \<mapsto> v))"
      using True by (simp add: g)
    have cond: "(\<forall>g' \<in> set (g # gs). hashable (fst g')) = (\<forall>g' \<in> set gs. hashable (fst g'))"
      using True by (simp add: g)
    show ?thesis
      unfolding step IH eq cond by (rule refl)
  next
    case False
    have step: "latest_events_loop (g # gs) m = Inl TypeError"
      using False by (simp add: g)
    have cond: "\<not> (\<forall>g' \<in> set (g # gs). hashable (fst g'))"
      using False by (simp add: g)
    show ?thesis
      unfolding step using cond by (simp only: if_False)
  qed
qed

lemma find_sorted_least:
  "sorted (map f ys) \<Longrightarrow> List.find P ys = Some e \<Longrightarrow> y \<in> set ys \<Longrightarrow> P y \<Longrightarrow> f e \<le> f y"
  by (induction ys) (auto split: if_splits)

lemma find_Some_mem: "List.find P ys = Some e \<Longrightarrow> e \<in> set ys \<and> P e"
  by (induction ys) (auto split: if_splits)

lemma latest_events_map_lookup:
  assumes "latest_events_loop (aggregate ids events) Map.empty = Inr m"
  shows "m k = List.find (\<lambda>e. user_id e = k)
                 (sort_key (\<lambda>e. - server_timestamp e)
                    (filter (\<lambda>e. in_match (user_id e) ids) events))"
proof -
  have "m = Map.empty ++ map_of (aggregate ids events)"
    using assms latest_events_loop_result [of "aggregate ids events" Map.empty]
    by (simp add: aggregate_def distinct_group_first split: if_splits)
  then show ?thesis
    by (simp add: aggregate_def map_of_group_first)
qed

lemma latest_events_map_keys:
  assumes "latest_events_loop (aggregate ids events) Map.empty = Inr m"
    and "e \<in> set events" and "in_match (user_id e) ids"
  shows "hashable (user_id e)"
proof -
  have "\<forall>g \<in> set (aggregate ids events). hashable (fst g)"
    using assms(1) latest_events_loop_result [of "aggregate ids events" Map.empty]
    by (simp add: aggregate_def distinct_group_first split: if_splits)
  moreover have "user_id e \<in> fst ` set (aggregate ids events)"
    using assms(2,3) by (simp add: aggregate_def group_first_keys)
  ultimately show ?thesis by auto
qed

lemma in_match_PStr: "in_match (PStr sid) ids = (sid \<in> set ids)"
  by (simp add: in_match_def)

lemma latest_lookup_None:
  assumes "latest_events_loop (aggregate ids events) Map.empty = Inr m"
    and "sid \<in> set ids"
  shows "m (PStr sid) = None \<longleftrightarrow> (\<forall>e \<in> set events. user_id e \<noteq> PStr sid)"
proof -
  have matched: "in_match (PStr sid) ids"
    using assms(2) by (simp add: in_match_PStr)
  have "m (PStr sid) = None \<longleftrightarrow>
          \<not> (\<exists>e. e \<in> set events \<and> in_match (user_id e) ids \<and> user_id e = PStr sid)"
    by (auto simp: latest_events_map_lookup [OF assms(1)] find_None_iff)
  also have "\<dots> \<longleftrightarrow> (\<forall>e \<in> set events. user_id e \<noteq> PStr sid)"
    using matched by (metis (full_types))
  finally show ?thesis .
qed

lemma latest_lookup_Some:
  assumes "latest_events_loop (aggregate ids events) Map.empty = Inr m"
    and "sid \<in> set ids"
    and "m (PStr sid) = Some e"
  shows "e \<in> set events \<and> user_id e = PStr sid \<and>
         (\<forall>e' \<in> set events. user_id e' = PStr sid \<longrightarrow> server_timestamp e' \<le> server_timestamp e)"
proof -
  let ?ys = "sort_key (\<lambda>e. - server_timestamp e)
               (filter (\<lambda>e. in_match (user_id e) ids) events)"
  have found: "List.find (\<lambda>e. user_id e = PStr sid) ?ys = Some e"
    using assms(3) by (simp add: latest_events_map_lookup [OF assms(1)])
  have mem: "e \<in> set ?ys \<and> user_id e = PStr sid"
    using found by (rule find_Some_mem)
  have newest: "server_timestamp e' \<le> server_timestamp e"
    if "e' \<in> set events" and "user_id e' = PStr sid" for e'
  proof -
    have "e' \<in> set ?ys"
      using that assms(2) by (simp add: in_match_PStr)
    then have "- server_timestamp e \<le> - server_timestamp e'"
      using find_sorted_least [OF sorted_sort_key found] that(2) by blast
    then show ?thesis by simp
  qed
  show ?thesis
    using mem newest by auto
qed

subsection \<open>The report loop\<close>

lemma report_loop_rows:
  "report_loop ucd thr m studs = Inr rows \<longleftrightarrow>
   list_all2 (\<lambda>st r. student_row ucd thr (fst st) (snd st) (m (PStr (fst st))) = Inr r) studs rows"
proof (induction studs arbitrary: rows)
  case Nil
  then show ?case by auto
next
  case (Cons st studs)
  show ?case
    by (cases rows) (auto simp: Cons.IH [symmetric] split: sum.splits)
qed

lemma report_loop_total:
  "(\<And>st. st \<in> set studs \<Longrightarrow> \<exists>r. student_row ucd thr (fst st) (snd st) (m (PStr (fst st))) = Inr r)
   \<Longrightarrow> \<exists>rows. report_loop ucd thr m studs = Inr rows"
proof (induction studs)
  case Nil
  then show ?case by simp
next
  case (Cons st studs)
  obtain r where "student_row ucd thr (fst st) (snd st) (m (PStr (fst st))) = Inr r"
    using Cons.prems [of st] by auto
  moreover obtain rows where "report_loop ucd thr m studs = Inr rows"
    using Cons by auto
  ultimately show ?case by simp
qed

lemma student_row_id:
  "student_row ucd thr sid name ev = Inr r \<Longrightarrow> row_id r = sid \<and> row_name r = name"
  by (auto simp: student_row_def Let_def split: option.splits pyval.splits sum.splits prod.splits)

subsection \<open>The student directory\<close>

lemma update_new_key: "k \<notin> fst ` set al \<Longrightarrow> AList.update k v al = al @ [(k, v)]"
  by (induction al) auto

lemma all_students_fold:
  assumes "distinct (map uid (filter (\<lambda>u. role u = ''student'') us))"
    and "\<And>u. u \<in> set us \<Longrightarrow> role u = ''student'' \<Longrightarrow> uid u \<notin> fst ` set d"
  shows "foldl (\<lambda>d user_data.
                  if role user_data = ''student''
                  then AList.update (uid user_data) (uname user_data) d else d) d us =
         d @ map (\<lambda>u. (uid u, uname u)) (filter (\<lambda>u. role u = ''student'') us)"
  using assms
proof (induction us arbitrary: d)
  case Nil
  then show ?case by simp
next
  case (Cons u us)
  show ?case
  proof (cases "role u = ''student''")
    case True
    have new: "uid u \<notin> fst ` set d"
      using Cons.prems(2) [of u] True by simp
    have "distinct (map uid (filter (\<lambda>u. role u = ''student'') us))"
      using Cons.prems(1) True by simp
    moreover have "uid u' \<notin> fst ` set (d @ [(uid u, uname u)])"
      if "u' \<in> set us" "role u' = ''student''" for u'
      using that Cons.prems True by (fastforce simp: image_iff)
    ultimately show ?thesis
      using True Cons.IH [of "d @ [(uid u, uname u)]"] by (simp add: update_new_key [OF new])
  next
    case False
    then show ?thesis
      using Cons by simp
  qed
qed

lemma all_students_distinct:
  "distinct (map uid (filter (\<lambda>u. role u = ''student'') (map snd users)))
   \<Longrightarrow> all_students users =
       map (\<lambda>u. (uid u, uname u)) (filter (\<lambda>u. role u = ''student'') (map snd users))"
  unfolding all_students_def by (subst all_students_fold) auto

lemma student_report_rows:
  assumes "student_report ucd users events now = Inr rows"
  shows "\<exists>m. latest_events_loop (aggregate (map fst (all_students users)) events) Map.empty = Inr m
           \<and> datetime_sub now (timedelta_of 0 ACTIVITY_TIMEOUT_MINUTES) = Inr (now - timedelta_of 0 5)
           \<and> list_all2 (\<lambda>st r. student_row ucd (now - timedelta_of 0 5) (fst st) (snd st)
                                  (m (PStr (fst st))) = Inr r)
                (all_students users) rows"
  using assms
  by (auto simp: student_report_def Let_def report_loop_rows
           split: sum.splits dest: timeout_threshold_eq)

lemma report_row_source:
  assumes "student_report ucd users events now = Inr rows" and "i < length rows"
  shows "\<exists>m. latest_events_loop (aggregate (map fst (all_students users)) events) Map.empty = Inr m
           \<and> row_id (rows ! i) \<in> set (map fst (all_students users))
           \<and> (row_id (rows ! i), row_name (rows ! i)) = all_students users ! i
           \<and> length rows = length (all_students users)
           \<and> student_row ucd (now - timedelta_of 0 5) (row_id (rows ! i)) (row_name (rows ! i))
                (m (PStr (row_id (rows ! i)))) = Inr (rows ! i)"
proof -
  let ?studs = "all_students users"
  obtain m where m: "latest_events_loop (aggregate (map fst ?studs) events) Map.empty = Inr m"
    and all2: "list_all2 (\<lambda>st r. student_row ucd (now - timedelta_of 0 5) (fst st) (snd st)
                                   (m (PStr (fst st))) = Inr r) ?studs rows"
    using student_report_rows [OF assms(1)] by blast
  have len: "length ?studs = length rows"
    using all2 by (rule list_all2_lengthD)
  have row: "student_row ucd (now - timedelta_of 0 5) (fst (?studs ! i)) (snd (?studs ! i))
               (m (PStr (fst (?studs ! i)))) = Inr (rows ! i)"
    using all2 assms(2) len by (simp add: list_all2_conv_all_nth)
  have ids: "row_id (rows ! i) = fst (?studs ! i) \<and> row_name (rows ! i) = snd (?studs ! i)"
    using row by (rule student_row_id)
  have "fst (?studs ! i) \<in> set (map fst ?studs)"
    using assms(2) len by (metis length_map nth_map nth_mem)
  then show ?thesis
    using m row ids len by (intro exI [of _ m]) (simp add: prod_eq_iff)
qed

lemma report_row_latest:
  assumes "student_report ucd users events now = Inr rows" and "i < length rows"
  shows "if \<forall>e \<in> set events. user_id e \<noteq> PStr (row_id (rows ! i))
         then student_row ucd (now - timedelta_of 0 5) (row_id (rows ! i)) (row_name (rows ! i)) None
                = Inr (rows ! i)
         else \<exists>e \<in> set events. user_id e = PStr (row_id (rows ! i)) \<and>
                (\<forall>e' \<in> set events. user_id e' = PStr (row_id (rows ! i)) \<longrightarrow>
                    server_timestamp e' \<le> server_timestamp e) \<and>
                student_row ucd (now - timedelta_of 0 5) (row_id (rows ! i)) (row_name (rows ! i))
                  (Some e) = Inr (rows ! i)"
proof -
  let ?sid = "row_id (rows ! i)"
  obtain m where m: "latest_events_loop (aggregate (map fst (all_students users)) events) Map.empty = Inr m"
    and sid: "?sid \<in> set (map fst (all_students users))"
    and row: "student_row ucd (now - timedelta_of 0 5) ?sid (row_name (rows ! i)) (m (PStr ?sid))
                = Inr (rows ! i)"
    using report_row_source [OF assms] by blast
  show ?thesis
  proof (cases "m (PStr ?sid)")
    case None
    then have "\<forall>e \<in> set events. user_id e \<noteq> PStr ?sid"
      using latest_lookup_None [OF m sid] by simp
    then show ?thesis
      using row None by simp
  next
    case (Some e)
    have e: "e \<in> set events \<and> user_id e = PStr ?sid \<and>
             (\<forall>e' \<in> set events. user_id e' = PStr ?sid \<longrightarrow>
                 server_timestamp e' \<le> server_timestamp e)"
      using latest_lookup_Some [OF m sid Some] .
    then have "\<not> (\<forall>e \<in> set events. user_id e \<noteq> PStr ?sid)"
      by blast
    then show ?thesis
      using e row Some by auto
  qed
qed

lemma all_students_MOCK_USERS:
  "all_students MOCK_USERS = [(''MCA-428'', ''Leni E''), (''MCA-112'', ''Soni Priya'')]"
  by code_simp

lemma get_student_data_report:
  "get_student_data ucd True users events now = Response 200 True (Some rows)
   \<longleftrightarrow> student_report ucd users events now = Inr rows"
  by (simp add: get_student_data_def split: sum.splits)

lemma report_rows_students:
  assumes "student_report ucd users events now = Inr rows"
  shows "map (\<lambda>r. (row_id r, row_name r)) rows = all_students users"
proof (rule nth_equalityI)
  show len: "length (map (\<lambda>r. (row_id r, row_name r)) rows) = length (all_students users)"
  proof (cases rows)
    case Nil
    then show ?thesis
      using student_report_rows [OF assms] by auto
  next
    case (Cons r rs)
    then have "0 < length rows" by simp
    then show ?thesis
      using report_row_source [OF assms, of 0] by auto
  qed
  fix i assume "i < length (map (\<lambda>r. (row_id r, row_name r)) rows)"
  then have "i < length rows" by simp
  then show "map (\<lambda>r. (row_id r, row_name r)) rows ! i = all_students users ! i"
    using report_row_source [OF assms, of i] by auto
qed

lemma well_typed_row:
  assumes "well_typed e"
  shows "\<exists>r. student_row ucd thr sid name (Some e) = Inr r"
proof -
  obtain md raw where "metadata e = PDict md"
    and "dict_get md ''client_status'' (PStr ''N/A'') = PStr raw"
    and "representable (server_timestamp e + IST_OFFSET)"
    using assms by (auto simp: well_typed_def split: pyval.splits)
  then show ?thesis
    by (simp add: student_row_Some)
qed

lemma well_typed_hashable: "well_typed e \<Longrightarrow> hashable (user_id e)"
  by (auto simp: well_typed_def split: pyval.splits)

lemma student_report_total:
  assumes "representable (now - timedelta_of 0 5)"
    and "\<forall>e \<in> set events. well_typed e"
  shows "\<exists>rows. student_report ucd users events now = Inr rows"
proof -
  let ?ids = "map fst (all_students users)"
  have "\<forall>g \<in> set (aggregate ?ids events). hashable (fst g)"
  proof
    fix g assume "g \<in> set (aggregate ?ids events)"
    then have "fst g \<in> user_id ` set events"
      using group_first_keys [of "sort_key (\<lambda>e. - server_timestamp e)
               (filter (\<lambda>e. in_match (user_id e) ?ids) events)"]
      by (auto simp: aggregate_def)
    then show "hashable (fst g)"
      using assms(2) well_typed_hashable by auto
  qed
  then obtain m where m: "latest_events_loop (aggregate ?ids events) Map.empty = Inr m"
    using latest_events_loop_result [of "aggregate ?ids events" Map.empty]
    by (simp add: aggregate_def distinct_group_first)
  have thr: "datetime_sub now (timedelta_of 0 ACTIVITY_TIMEOUT_MINUTES) = Inr (now - timedelta_of 0 5)"
    using assms(1)
    by (simp add: datetime_sub_def datetime_add_def representable_def
          ACTIVITY_TIMEOUT_MINUTES_def)
  have "\<exists>r. student_row ucd (now - timedelta_of 0 5) (fst st) (snd st) (m (PStr (fst st))) = Inr r"
    if "st \<in> set (all_students users)" for st
  proof (cases "m (PStr (fst st))")
    case None
    then show ?thesis by (simp add: student_row_def)
  next
    case (Some e)
    have "fst st \<in> set ?ids"
      using that by simp
    then have "e \<in> set events"
      using latest_lookup_Some [OF m _ Some] by simp
    then show ?thesis
      using assms(2) Some well_typed_row by simp
  qed
  then obtain rows where "report_loop ucd (now - timedelta_of 0 5) m (all_students users) = Inr rows"
    using report_loop_total by blast
  then show ?thesis
    using m thr by (simp add: student_report_def Let_def)
qed

lemma bson_datetime_mono: "t1 \<le> t2 \<Longrightarrow> bson_datetime t1 \<le> bson_datetime t2"
proof -
  assume "t1 \<le> t2"
  then have "t1 div 1000 \<le> t2 div 1000"
    by (rule zdiv_mono1) simp
  moreover have "bson_datetime t = 1000 * (t div 1000)" for t
    by (simp add: bson_datetime_def minus_mod_eq_mult_div)
  ultimately show ?thesis by simp
qed

lemma track_attendance_stored:
  assumes "track_attendance True store_accepts data now events = (Response 200 True None, stored)"
  shows "stored = events @ [(posted_event data now)\<lparr>server_timestamp := bson_datetime now\<rparr>]"
  using assms
  by (auto simp: track_attendance_def insert_one_def posted_event_def
           split: if_splits sum.splits)

lemma track_attendance_200_iff:
  "fst (track_attendance True store_accepts data now events) = Response 200 True None \<longleftrightarrow>
     {''user_id'', ''event_type'', ''metadata''} \<subseteq> fst ` set data \<and>
     list_all bson_encodable (document_values (posted_event data now)) \<and>
     (map_of data ''_id'' = None \<or> map_of data ''_id'' \<notin> doc_id ` set events) \<and>
     store_accepts"
  by (auto simp: track_attendance_def insert_one_def posted_event_def)

lemma track_attendance_snd:
  "snd (track_attendance True store_accepts data now events) =
     (if fst (track_attendance True store_accepts data now events) = Response 200 True None
      then events @ [(posted_event data now)\<lparr>server_timestamp := bson_datetime now\<rparr>]
      else events)"
  by (simp add: track_attendance_def insert_one_def posted_event_def)

lemma document_values_posted_event:
  "document_values (posted_event data t) = document_values (posted_event data t')"
  by (simp add: document_values_def posted_event_def)

lemma track_attendance_twice_200_iff:
  "fst (track_attendance True accepts1 data t1 events) = Response 200 True None \<and>
   fst (track_attendance True accepts2 data t2
          (snd (track_attendance True accepts1 data t1 events))) = Response 200 True None \<longleftrightarrow>
     {''user_id'', ''event_type'', ''metadata''} \<subseteq> fst ` set data \<and>
     map_of data ''_id'' = None \<and>
     list_all bson_encodable (document_values (posted_event data t1)) \<and>
     accepts1 \<and> accepts2"
proof (cases "fst (track_attendance True accepts1 data t1 events) = Response 200 True None")
  case True
  let ?ev = "(posted_event data t1)\<lparr>server_timestamp := bson_datetime t1\<rparr>"
  have stored: "snd (track_attendance True accepts1 data t1 events) = events @ [?ev]"
    using True by (simp add: track_attendance_snd)
  have id: "doc_id ?ev = map_of data ''_id''"
    by (simp add: posted_event_def)
  have "map_of data ''_id'' \<in> doc_id ` set (events @ [?ev])"
    using id by (simp add: image_iff)
  then have "fst (track_attendance True accepts2 data t2 (events @ [?ev])) = Response 200 True None
      \<longleftrightarrow> {''user_id'', ''event_type'', ''metadata''} \<subseteq> fst ` set data \<and>
          list_all bson_encodable (document_values (posted_event data t1)) \<and>
          map_of data ''_id'' = None \<and> accepts2"
    unfolding track_attendance_200_iff document_values_posted_event [of data t2 t1] by blast
  moreover have "accepts1"
    using True unfolding track_attendance_200_iff by blast
  ultimately show ?thesis
    using True unfolding stored by blast
next
  case False
  then have "\<not> ({''user_id'', ''event_type'', ''metadata''} \<subseteq> fst ` set data \<and>
     map_of data ''_id'' = None \<and>
     list_all bson_encodable (document_values (posted_event data t1)) \<and> accepts1)"
    unfolding track_attendance_200_iff by blast
  then show ?thesis
    using False by blast
qed

lemma student_row_Some_cases:
  assumes "student_row ucd thr sid name (Some e) = Inr r"
  obtains md raw where "metadata e = PDict md"
    and "dict_get md ''client_status'' (PStr ''N/A'') = PStr raw"
    and "representable (server_timestamp e + IST_OFFSET)"
proof -
  obtain md where md: "metadata e = PDict md"
    using assms by (cases "metadata e") (simp_all add: student_row_def)
  obtain raw where raw: "dict_get md ''client_status'' (PStr ''N/A'') = PStr raw"
    using assms md
    by (cases "dict_get md ''client_status'' (PStr ''N/A'')") (simp_all add: student_row_def)
  have "datetime_add (server_timestamp e) IST_OFFSET \<noteq> Inl OverflowError"
    using assms md raw by (auto simp: student_row_def Let_def split: prod.splits)
  then have "representable (server_timestamp e + IST_OFFSET)"
    by (simp add: datetime_add_def representable_def Let_def split: if_splits)
  then show ?thesis
    using md raw that by blast
qed

lemma student_row_timestamp:
  assumes "student_row ucd thr sid name (Some e) = Inr r"
  shows "timestamp r = isoformat (server_timestamp e + IST_OFFSET) \<and> last_event r = event_type e"
proof -
  obtain md raw where "metadata e = PDict md"
    and "dict_get md ''client_status'' (PStr ''N/A'') = PStr raw"
    and "representable (server_timestamp e + IST_OFFSET)"
    using assms by (rule student_row_Some_cases)
  then show ?thesis
    using assms student_row_Some [of e md raw ucd thr sid name] by auto
qed

lemma dec_str_chars:
  assumes "\<And>d. d < 10 \<Longrightarrow> digit_char d \<in> D"
  shows "set (dec_str n) \<subseteq> D"
proof (induction n rule: dec_str.induct)
  case (1 n)
  show ?case
  proof (cases "n < 10")
    case True
    then show ?thesis
      using assms [of n] by (subst dec_str.simps) simp
  next
    case False
    then show ?thesis
      using 1 assms [of "n mod 10"] by (subst dec_str.simps) simp
  qed
qed

lemma zero_digit_char: "CHR ''0'' = digit_char 0"
  by code_simp

lemma zpad_chars:
  assumes "\<And>d. d < 10 \<Longrightarrow> digit_char d \<in> D"
  shows "set (zpad w n) \<subseteq> D"
proof -
  have "CHR ''0'' \<in> D"
    using assms [of 0] by (simp add: zero_digit_char)
  then have "set (replicate k (CHR ''0'')) \<subseteq> D" for k
    by auto
  then show ?thesis
    using dec_str_chars [OF assms, of n] by (simp add: zpad_def)
qed

lemma isoformat_chars_in:
  assumes "\<And>d. d < 10 \<Longrightarrow> digit_char d \<in> D"
    and "CHR ''-'' \<in> D" and "CHR ''T'' \<in> D" and "CHR '':'' \<in> D" and "CHR ''.'' \<in> D"
  shows "set (isoformat t) \<subseteq> D"
proof -
  have z: "x \<in> D" if "x \<in> set (zpad w n)" for x w n
    using that zpad_chars [OF assms(1), of w n] by auto
  show ?thesis
    using assms(2-) by (auto simp: isoformat_def Let_def split: prod.splits dest: z)
qed

lemma isoformat_chars: "set (isoformat t) \<subseteq> set ''0123456789-T:.''"
proof (rule isoformat_chars_in)
  have "\<forall>d \<in> {0..<10}. digit_char d \<in> set ''0123456789-T:.''"
    by code_simp
  then show "digit_char d \<in> set ''0123456789-T:.''" if "d < 10" for d
    using that by simp
qed simp_all

text \<open>
  A running example: the same heartbeat of student \<open>MCA-428\<close> recorded at
  2023-12-31T23:59:00 and again at 2024-01-01T00:00:00, and the report one minute later.
\<close>

lemma example_stored:
  "track_attendance True True
     [(''user_id'', PStr ''MCA-428''), (''event_type'', PStr ''heartbeat''),
        (''metadata'', PDict [(''client_status'', PStr ''active''), (''tab_focused'', PBool True)])] 63839663940000000 [] =
     (Response 200 True None,
      [\<lparr>doc_id = None, other_fields = [], user_id = PStr ''MCA-428'', event_type = PStr ''heartbeat'',
         metadata = PDict [(''client_status'', PStr ''active''), (''tab_focused'', PBool True)],
         server_timestamp = 63839663940000000\<rparr>])"
  "track_attendance True True
     [(''user_id'', PStr ''MCA-428''), (''event_type'', PStr ''heartbeat''),
        (''metadata'', PDict [(''client_status'', PStr ''active''), (''tab_focused'', PBool True)])] 63839664000000000
     [\<lparr>doc_id = None, other_fields = [], user_id = PStr ''MCA-428'', event_type = PStr ''heartbeat'',
         metadata = PDict [(''client_status'', PStr ''active''), (''tab_focused'', PBool True)],
         server_timestamp = 63839663940000000\<rparr>] =
     (Response 200 True None,
      [\<lparr>doc_id = None, other_fields = [], user_id = PStr ''MCA-428'', event_type = PStr ''heartbeat'',
         metadata = PDict [(''client_status'', PStr ''active''), (''tab_focused'', PBool True)],
         server_timestamp = 63839663940000000\<rparr>,
       \<lparr>doc_id = None, other_fields = [], user_id = PStr ''MCA-428'', event_type = PStr ''heartbeat'',
         metadata = PDict [(''client_status'', PStr ''active''), (''tab_focused'', PBool True)],
         server_timestamp = 63839664000000000\<rparr>])"
  by (simp_all add: track_attendance_def insert_one_def posted_event_def document_values_def
        bson_datetime_def dict_get_def)

lemma example_report:
  "student_report ucd_sample MOCK_USERS
     [\<lparr>doc_id = None, other_fields = [], user_id = PStr ''MCA-428'', event_type = PStr ''heartbeat'',
         metadata = PDict [(''client_status'', PStr ''active''), (''tab_focused'', PBool True)],
         server_timestamp = 63839663940000000\<rparr>,
      \<lparr>doc_id = None, other_fields = [], user_id = PStr ''MCA-428'', event_type = PStr ''heartbeat'',
         metadata = PDict [(''client_status'', PStr ''active''), (''tab_focused'', PBool True)],
         server_timestamp = 63839664000000000\<rparr>] 63839664060000000 =
   Inr [\<lparr>row_id = ''MCA-428'', row_name = ''Leni E'', status = ''Active'', focus = ''Focused'',
          last_event = PStr ''heartbeat'', timestamp = ''2024-01-01T05:30:00''\<rparr>,
         \<lparr>row_id = ''MCA-112'', row_name = ''Soni Priya'', status = ''Never Logged In'',
          focus = ''N/A'', last_event = PStr ''None'', timestamp = ''N/A''\<rparr>]"
  by code_simp

lemma distinct_MOCK_USERS: "distinct (map uid (map snd MOCK_USERS))"
  by code_simp

subsection \<open>The length of \<open>isoformat\<close>\<close>

lemma length_dec_str: "n < 10 ^ w \<Longrightarrow> 0 < w \<Longrightarrow> length (dec_str n) \<le> w"
proof (induction w arbitrary: n)
  case 0
  then show ?case by simp
next
  case (Suc w)
  show ?case
  proof (cases "n < 10")
    case True
    then show ?thesis
      by (subst dec_str.simps) simp
  next
    case False
    then have "0 < w"
      using Suc.prems(1) by (cases w) auto
    moreover have "n div 10 < 10 ^ w"
      using Suc.prems(1) by (simp add: less_mult_imp_div_less mult.commute)
    ultimately have "length (dec_str (n div 10)) \<le> w"
      by (rule Suc.IH [rotated])
    then show ?thesis
      using False by (subst dec_str.simps) simp
  qed
qed

lemma length_zpad: "n < 10 ^ w \<Longrightarrow> 0 < w \<Longrightarrow> length (zpad w n) = w"
  using length_dec_str [of n w] by (simp add: zpad_def)

lemma year_bound:
  fixes n :: int
  assumes "0 \<le> n" and "n \<le> 3652058"
    and "a = n div 146097" and "r1 = n mod 146097"
    and "b = r1 div 36524" and "r2 = r1 mod 36524"
    and "c = r2 div 1461" and "r3 = r2 mod 1461"
    and "d = r3 div 365" and "r4 = r3 mod 365"
  shows "0 \<le> 400 * a + 100 * b + 4 * c + d"
    and "d \<noteq> 4 \<Longrightarrow> b \<noteq> 4 \<Longrightarrow> 400 * a + 100 * b + 4 * c + d < 9999"
    and "400 * a + 100 * b + 4 * c + d \<le> 9999"
    and "0 \<le> r4" and "r4 < 365"
proof -
  have n: "n = 146097 * a + r1" "0 \<le> r1" "r1 < 146097"
    using assms(3,4) by simp_all
  have r1: "r1 = 36524 * b + r2" "0 \<le> r2" "r2 < 36524"
    using assms(5,6) by simp_all
  have r2: "r2 = 1461 * c + r3" "0 \<le> r3" "r3 < 1461"
    using assms(7,8) by simp_all
  have r3: "r3 = 365 * d + r4" "0 \<le> r4" "r4 < 365"
    using assms(9,10) by simp_all
  show "0 \<le> r4" "r4 < 365"
    using r3 by simp_all
  have a: "0 \<le> a" "a \<le> 24"
    using n assms(1,2) by arith+
  have b: "0 \<le> b" "b \<le> 4"
    using r1 n by arith+
  have c: "0 \<le> c" "c \<le> 24"
    using r2 r1 by arith+
  have d: "0 \<le> d" "d \<le> 4"
    using r3 r2 by arith+
  show "0 \<le> 400 * a + 100 * b + 4 * c + d"
    using a b c d by simp
  have top: "400 * a + 100 * b + 4 * c + d \<le> 9998" if "d \<le> 3" "b \<le> 3"
  proof (cases "a \<le> 23")
    case True
    then show ?thesis using that c by simp
  next
    case False
    then have a24: "a = 24" using a by simp
    show ?thesis
    proof (cases "b \<le> 2")
      case True
      then show ?thesis using a24 c that by simp
    next
      case False
      then have b3: "b = 3" using that by simp
      show ?thesis
      proof (cases "c \<le> 23")
        case True
        then show ?thesis using a24 b3 that by simp
      next
        case False
        then have c24: "c = 24" using c by simp
        have "d \<le> 2"
          using n r1 r2 r3 assms(2) a24 b3 c24 by simp
        then show ?thesis using a24 b3 c24 by simp
      qed
    qed
  qed
  show "400 * a + 100 * b + 4 * c + d < 9999" if "d \<noteq> 4" "b \<noteq> 4"
    using top that b d by simp
  show "400 * a + 100 * b + 4 * c + d \<le> 9999"
  proof (cases "b = 4")
    case True
    then have "r2 = 0" "a \<le> 23"
      using r1 n assms(2) by simp_all
    then have "c = 0" "d = 0"
      using r2 r3 c d by simp_all
    then show ?thesis
      using True \<open>a \<le> 23\<close> by simp
  next
    case False
    then have b3: "b \<le> 3" using b by simp
    show ?thesis
    proof (cases "d = 4")
      case True
      have "a \<le> 23 \<or> b \<le> 2 \<or> c \<le> 23"
        using n r1 r2 r3 assms(2) True by arith
      then show ?thesis
        using a b3 c True by arith
    next
      case False
      then show ?thesis
        using top b3 d by simp
    qed
  qed
qed

lemma month_table_bounds:
  "\<forall>k \<in> {1..12}. 32 * int k - 80 \<le> DAYS_BEFORE_MONTH ! k"
  "\<forall>k \<in> {1..12}. 32 * int k - 115 \<le> DAYS_BEFORE_MONTH ! k - DAYS_IN_MONTH ! (k - 1)"
  by code_simp+

lemma ord2ymd_eq:
  fixes ordinal :: int
  defines "n \<equiv> ordinal - 1"
  defines "a \<equiv> n div 146097"
  defines "r1 \<equiv> n mod 146097"
  defines "b \<equiv> r1 div 36524"
  defines "r2 \<equiv> r1 mod 36524"
  defines "c \<equiv> r2 div 1461"
  defines "r3 \<equiv> r2 mod 1461"
  defines "dd \<equiv> r3 div 365"
  defines "r4 \<equiv> r3 mod 365"
  defines "Y \<equiv> 400 * a + 100 * b + 4 * c + dd"
  defines "k \<equiv> nat ((r4 + 50) div 32)"
  defines "leap \<equiv> (dd = 3 \<and> (c \<noteq> 24 \<or> b = 3))"
  defines "P \<equiv> DAYS_BEFORE_MONTH ! k + (if k > 2 \<and> leap then 1 else 0)"
  defines "P' \<equiv> P - (DAYS_IN_MONTH ! (k - 1) + (if k - 1 = 2 \<and> leap then 1 else 0))"
  shows "ord2ymd ordinal =
              (if dd = 4 \<or> b = 4 then (Y, 12, 31)
               else if P > r4 then (Y + 1, k - 1, r4 - P' + 1) else (Y + 1, k, r4 - P + 1))"
  unfolding ord2ymd_def Let_def DI400Y_def DI100Y_def DI4Y_def assms
  by (simp only: mult.commute [of _ "400::int"] mult.commute [of _ "100::int"]
        mult.commute [of _ "4::int"] add.assoc add.commute add.left_commute
        add_diff_cancel_right' add_diff_cancel_left' split: if_splits)

lemma ord2ymd_bounds:
  assumes "1 \<le> ordinal" and "ordinal \<le> MAXORDINAL" and "ord2ymd ordinal = (y, m, d)"
  shows "nat y < 10000 \<and> m < 100 \<and> nat d < 100"
proof -
  define n where "n = ordinal - 1"
  define a where "a = n div 146097"
  define r1 where "r1 = n mod 146097"
  define b where "b = r1 div 36524"
  define r2 where "r2 = r1 mod 36524"
  define c where "c = r2 div 1461"
  define r3 where "r3 = r2 mod 1461"
  define dd where "dd = r3 div 365"
  define r4 where "r4 = r3 mod 365"
  define Y where "Y = 400 * a + 100 * b + 4 * c + dd"
  define kk where "kk = (r4 + 50) div 32"
  define k where "k = nat kk"
  define leap where "leap = (dd = 3 \<and> (c \<noteq> 24 \<or> b = 3))"
  define P where "P = DAYS_BEFORE_MONTH ! k + (if k > 2 \<and> leap then 1 else 0)"
  define P' where "P' = P - (DAYS_IN_MONTH ! (k - 1) + (if k - 1 = 2 \<and> leap then 1 else 0))"
  have n: "0 \<le> n" "n \<le> 3652058"
    using assms(1,2) by (simp_all add: n_def MAXORDINAL_def)
  note yb = year_bound [OF n a_def r1_def b_def r2_def c_def r3_def dd_def r4_def]
  have eq: "ord2ymd ordinal =
              (if dd = 4 \<or> b = 4 then (Y, 12, 31)
               else if P > r4 then (Y + 1, k - 1, r4 - P' + 1) else (Y + 1, k, r4 - P + 1))"
    unfolding P'_def P_def leap_def k_def kk_def Y_def r4_def dd_def r3_def c_def r2_def b_def
      r1_def a_def n_def
    by (rule ord2ymd_eq)
  have Y: "0 \<le> Y" "Y \<le> 9999"
    using yb(1,3) by (simp_all add: Y_def)
  have Y': "Y < 9999" if "dd \<noteq> 4" "b \<noteq> 4"
    using yb(2) that by (simp add: Y_def)
  have kk_eq: "r4 + 50 = 32 * kk + (r4 + 50) mod 32"
    by (simp add: kk_def)
  have kk_mod: "0 \<le> (r4 + 50) mod 32" "(r4 + 50) mod 32 < 32"
    by simp_all
  have kk: "1 \<le> kk" "kk \<le> 12" "r4 \<le> 32 * kk - 19"
    using kk_eq kk_mod yb(4,5) by arith+
  have k: "1 \<le> k" "k \<le> 12" "int k = kk"
    using kk(1,2) by (simp_all add: k_def)
  define T1 where "T1 = DAYS_BEFORE_MONTH ! k"
  define T0 where "T0 = DAYS_IN_MONTH ! (k - 1)"
  have tab: "32 * kk - 80 \<le> T1" "32 * kk - 115 \<le> T1 - T0"
    using month_table_bounds k(1,2) unfolding T1_def T0_def k(3) [symmetric] by simp_all
  have "T1 \<le> P" "T1 - T0 - 1 \<le> P'"
    unfolding P'_def P_def T1_def [symmetric] T0_def [symmetric] by simp_all
  then have P: "32 * kk - 80 \<le> P" "32 * kk - 116 \<le> P'"
    using tab by arith+
  show ?thesis
  proof (cases "dd = 4 \<or> b = 4")
    case True
    then have "(y, m, d) = (Y, 12, 31)"
      using assms(3) eq by simp
    then show ?thesis
      using Y by simp
  next
    case False
    then have res: "(y, m, d) = (if P > r4 then (Y + 1, k - 1, r4 - P' + 1) else (Y + 1, k, r4 - P + 1))"
      using assms(3) eq by simp
    have y: "y = Y + 1"
      using res by (simp split: if_splits)
    have m: "m \<le> k"
      using res by (simp split: if_splits)
    have d: "d \<le> r4 - P + 1 \<or> d \<le> r4 - P' + 1"
      using res by (simp split: if_splits)
    have "nat y < 10000"
      using y Y Y' False by simp
    moreover have "m < 100"
      using m k(2) by simp
    moreover have "d < 100"
      using d P kk(3) by arith
    ultimately show ?thesis by simp
  qed
qed

lemma length_isoformat:
  assumes "representable t"
  shows "length (isoformat t) = (if t mod 1000000 = 0 then 19 else 26)"
proof -
  obtain y m d where ymd: "ord2ymd (t div US_PER_DAY + 1) = (y, m, d)"
    by (cases "ord2ymd (t div US_PER_DAY + 1)") auto
  have t: "0 \<le> t" "t < MAXORDINAL * US_PER_DAY"
    using assms by (simp_all add: representable_def dt_limit_def)
  have "0 \<le> t div US_PER_DAY"
    using t(1) by (simp add: US_PER_DAY_def pos_imp_zdiv_nonneg_iff)
  moreover have "t div US_PER_DAY < MAXORDINAL"
    using t(2) by (simp add: US_PER_DAY_def div_less_iff_less_mult)
  ultimately have "nat y < 10000 \<and> m < 100 \<and> nat d < 100"
    using ord2ymd_bounds [OF _ _ ymd] by simp
  then have date: "length (zpad 4 (nat y)) = 4" "length (zpad 2 m) = 2"
    "length (zpad 2 (nat d)) = 2"
    by (simp_all add: length_zpad)
  define u where "u = t mod US_PER_DAY"
  have u: "0 \<le> u" "u < 86400000000"
    by (simp_all add: u_def US_PER_DAY_def)
  have "u div 3600000000 < 100"
    using u(2) by (simp add: div_less_iff_less_mult)
  then have hour: "length (zpad 2 (nat (u div 3600000000))) = 2"
    by (simp add: length_zpad)
  have "u div 60000000 mod 60 < 100" "u div 1000000 mod 60 < 100"
    by (simp_all add: pos_mod_bound [THEN less_trans])
  then have minsec: "length (zpad 2 (nat (u div 60000000 mod 60))) = 2"
    "length (zpad 2 (nat (u div 1000000 mod 60))) = 2"
    by (simp_all add: length_zpad)
  have "u mod 1000000 < 1000000"
    by simp
  then have micro: "length (zpad 6 (nat (u mod 1000000))) = 6"
    by (simp add: length_zpad)
  have same: "u mod 1000000 = t mod 1000000"
    unfolding u_def US_PER_DAY_def by (rule mod_mod_cancel) simp
  have iso: "isoformat t =
      zpad 4 (nat y) @ ''-'' @ zpad 2 m @ ''-'' @ zpad 2 (nat d) @ ''T''
        @ zpad 2 (nat (u div 3600000000)) @ '':'' @ zpad 2 (nat (u div 60000000 mod 60))
        @ '':'' @ zpad 2 (nat (u div 1000000 mod 60))
        @ (if u mod 1000000 \<noteq> 0 then ''.'' @ zpad 6 (nat (u mod 1000000)) else [])"
    unfolding isoformat_def Let_def ymd u_def [symmetric] by (simp only: prod.case)
  show ?thesis
    unfolding iso same length_append date hour minsec
    using micro [unfolded same] by (simp only: length_append list.size if_distrib) simp
qed

subsection \<open>Status derivation for one student\<close>

text \<open>
  Claim C1. An event whose \<open>client_status\<close>, lower-cased, is \<open>logged_out\<close> gives the row
  status \<open>Logged Out\<close> and focus \<open>N/A\<close>, for every threshold: however far the event lies
  in the past, the logout is reported and not inactivity. The only side condition is that
  the displayed instant, the timestamp plus the offset, is a representable datetime.
\<close>

theorem logout_wins_over_staleness:
  assumes "metadata e = PDict md"
    and "dict_get md ''client_status'' (PStr ''N/A'') = PStr raw"
    and "str_lower ucd raw = ''logged_out''"
    and "representable (server_timestamp e + IST_OFFSET)"
  shows "student_row ucd timeout_threshold sid name (Some e) =
           Inr \<lparr>row_id = sid, row_name = name, status = ''Logged Out'', focus = ''N/A'',
                last_event = event_type e,
                timestamp = isoformat (server_timestamp e + IST_OFFSET)\<rparr>"
  using assms by (simp add: student_row_Some)

theorem logout_wins_over_staleness_witness:
  "student_row ucd_sample 70000000000000000 ''MCA-112'' ''Soni Priya''
     (Some \<lparr>doc_id = None, other_fields = [], user_id = PStr ''MCA-112'', event_type = PStr ''logout'',
            metadata = PDict [(''client_status'', PStr ''logged_out''),
                              (''tab_focused'', PBool False)],
            server_timestamp = mk_datetime 2024 1 1 0 0 0 0\<rparr>) =
   Inr \<lparr>row_id = ''MCA-112'', row_name = ''Soni Priya'', status = ''Logged Out'',
        focus = ''N/A'', last_event = PStr ''logout'', timestamp = ''2024-01-01T05:30:00''\<rparr>"
proof -
  let ?md = "[(''client_status'', PStr ''logged_out''), (''tab_focused'', PBool False)]"
  let ?e = "\<lparr>doc_id = None, other_fields = [], user_id = PStr ''MCA-112'', event_type = PStr ''logout'', metadata = PDict ?md,
             server_timestamp = mk_datetime 2024 1 1 0 0 0 0\<rparr>"
  have h1: "metadata ?e = PDict ?md" by simp
  have h2: "dict_get ?md ''client_status'' (PStr ''N/A'') = PStr ''logged_out''"
    by (simp add: dict_get_def)
  have h3: "str_lower ucd_sample ''logged_out'' = ''logged_out''" by (rule lower_examples)
  have h4: "representable (server_timestamp ?e + IST_OFFSET)"
    unfolding new_year_2024 by (simp add: representable_def IST_OFFSET_us dt_limit_us)
  show ?thesis
    using logout_wins_over_staleness [OF h1 h2 h3 h4, of 70000000000000000
        "''MCA-112''" "''Soni Priya''"]
    unfolding new_year_2024 by (simp add: IST_OFFSET_us isoformat_new_year_2024_ist)
qed

text \<open>
  Claim C2. An event that is not a logout and whose timestamp is strictly earlier than
  \<open>now\<close> minus five minutes gives status \<open>Offline (Inactive)\<close> and focus \<open>N/A\<close>,
  whatever the string \<open>client_status\<close> is (also when the key is missing).
\<close>

theorem stale_event_is_offline:
  assumes "metadata e = PDict md"
    and "dict_get md ''client_status'' (PStr ''N/A'') = PStr raw"
    and "str_lower ucd raw \<noteq> ''logged_out''"
    and "datetime_sub now (timedelta_of 0 ACTIVITY_TIMEOUT_MINUTES) = Inr timeout_threshold"
    and "server_timestamp e < now - timedelta_of 0 5"
    and "representable (server_timestamp e + IST_OFFSET)"
  shows "student_row ucd timeout_threshold sid name (Some e) =
           Inr \<lparr>row_id = sid, row_name = name, status = ''Offline (Inactive)'',
                focus = ''N/A'', last_event = event_type e,
                timestamp = isoformat (server_timestamp e + IST_OFFSET)\<rparr>"
proof -
  have "server_timestamp e < timeout_threshold"
    using assms(4,5) timeout_threshold_eq by simp
  then show ?thesis
    using assms(1,2,3,6) by (simp add: student_row_Some)
qed

theorem stale_event_is_offline_witness:
  "student_row ucd_sample (63839664000000000 + 360000000 - 300000000) ''MCA-428'' ''Leni E''
     (Some \<lparr>doc_id = None, other_fields = [], user_id = PStr ''MCA-428'', event_type = PStr ''heartbeat'',
            metadata = PDict [(''client_status'', PStr ''Active''),
                              (''tab_focused'', PBool True)],
            server_timestamp = mk_datetime 2024 1 1 0 0 0 0\<rparr>) =
   Inr \<lparr>row_id = ''MCA-428'', row_name = ''Leni E'', status = ''Offline (Inactive)'',
        focus = ''N/A'', last_event = PStr ''heartbeat'', timestamp = ''2024-01-01T05:30:00''\<rparr>"
proof -
  let ?md = "[(''client_status'', PStr ''Active''), (''tab_focused'', PBool True)]"
  let ?e = "\<lparr>doc_id = None, other_fields = [], user_id = PStr ''MCA-428'', event_type = PStr ''heartbeat'', metadata = PDict ?md,
             server_timestamp = mk_datetime 2024 1 1 0 0 0 0\<rparr>"
  let ?now = "63839664000000000 + 360000000 :: int"
  have h1: "metadata ?e = PDict ?md" by simp
  have h2: "dict_get ?md ''client_status'' (PStr ''N/A'') = PStr ''Active''"
    by (simp add: dict_get_def)
  have h3: "str_lower ucd_sample ''Active'' \<noteq> ''logged_out''" by (simp add: lower_examples)
  have h4: "datetime_sub ?now (timedelta_of 0 ACTIVITY_TIMEOUT_MINUTES) = Inr (?now - 300000000)"
    by (simp add: datetime_sub_def datetime_add_def ACTIVITY_TIMEOUT_MINUTES_def
          five_minutes_us dt_limit_us)
  have h5: "server_timestamp ?e < ?now - timedelta_of 0 5"
    unfolding new_year_2024 by (simp add: five_minutes_us)
  have h6: "representable (server_timestamp ?e + IST_OFFSET)"
    unfolding new_year_2024 by (simp add: representable_def IST_OFFSET_us dt_limit_us)
  show ?thesis
    using stale_event_is_offline [OF h1 h2 h3 h4 h5 h6, of "''MCA-428''" "''Leni E''"]
    unfolding new_year_2024 by (simp add: IST_OFFSET_us isoformat_new_year_2024_ist)
qed

text \<open>
  Claim C7. A fresh event (its timestamp is not earlier than \<open>now\<close> minus five minutes)
  whose lower-cased \<open>client_status\<close> is \<open>active\<close>, respectively \<open>idle\<close>, gives status
  \<open>Active\<close>, respectively \<open>Idle\<close>; the focus is \<open>Focused\<close> when \<open>tab_focused\<close> is
  present and true, and \<open>Blurred\<close> when it is false or absent.
\<close>

theorem fresh_active_or_idle:
  assumes "metadata e = PDict md"
    and "dict_get md ''client_status'' (PStr ''N/A'') = PStr raw"
    and "str_lower ucd raw = ''active'' \<or> str_lower ucd raw = ''idle''"
    and "datetime_sub now (timedelta_of 0 ACTIVITY_TIMEOUT_MINUTES) = Inr timeout_threshold"
    and "\<not> server_timestamp e < now - timedelta_of 0 5"
    and "representable (server_timestamp e + IST_OFFSET)"
  shows "student_row ucd timeout_threshold sid name (Some e) =
           Inr \<lparr>row_id = sid, row_name = name,
                status = (if str_lower ucd raw = ''active'' then ''Active'' else ''Idle''),
                focus = (case map_of md ''tab_focused'' of
                           None \<Rightarrow> ''Blurred''
                         | Some tab_focused \<Rightarrow>
                             if truthy tab_focused then ''Focused'' else ''Blurred''),
                last_event = event_type e,
                timestamp = isoformat (server_timestamp e + IST_OFFSET)\<rparr>"
proof -
  have fresh: "\<not> server_timestamp e < timeout_threshold"
    using assms(4,5) timeout_threshold_eq by simp
  have not_logout: "str_lower ucd raw \<noteq> ''logged_out''"
    using assms(3) by auto
  show ?thesis
    using assms(3) fresh not_logout
    by (auto simp: student_row_Some [OF assms(1,2,6)] dict_get_def split: option.splits)
qed

theorem fresh_active_or_idle_witness:
  "student_row ucd_sample (63839664000000000 + 60000000 - 300000000) ''MCA-428'' ''Leni E''
     (Some \<lparr>doc_id = None, other_fields = [], user_id = PStr ''MCA-428'', event_type = PStr ''heartbeat'',
            metadata = PDict [(''client_status'', PStr ''IDLE'')],
            server_timestamp = mk_datetime 2024 1 1 0 0 0 0\<rparr>) =
   Inr \<lparr>row_id = ''MCA-428'', row_name = ''Leni E'', status = ''Idle'',
        focus = ''Blurred'', last_event = PStr ''heartbeat'', timestamp = ''2024-01-01T05:30:00''\<rparr>"
proof -
  let ?md = "[(''client_status'', PStr ''IDLE'')]"
  let ?e = "\<lparr>doc_id = None, other_fields = [], user_id = PStr ''MCA-428'', event_type = PStr ''heartbeat'', metadata = PDict ?md,
             server_timestamp = mk_datetime 2024 1 1 0 0 0 0\<rparr>"
  let ?now = "63839664000000000 + 60000000 :: int"
  have h1: "metadata ?e = PDict ?md" by simp
  have h2: "dict_get ?md ''client_status'' (PStr ''N/A'') = PStr ''IDLE''"
    by (simp add: dict_get_def)
  have h3: "str_lower ucd_sample ''IDLE'' = ''active'' \<or> str_lower ucd_sample ''IDLE'' = ''idle''"
    by (simp add: lower_examples)
  have h4: "datetime_sub ?now (timedelta_of 0 ACTIVITY_TIMEOUT_MINUTES) = Inr (?now - 300000000)"
    by (simp add: datetime_sub_def datetime_add_def ACTIVITY_TIMEOUT_MINUTES_def
          five_minutes_us dt_limit_us)
  have h5: "\<not> server_timestamp ?e < ?now - timedelta_of 0 5"
    unfolding new_year_2024 by (simp add: five_minutes_us)
  have h6: "representable (server_timestamp ?e + IST_OFFSET)"
    unfolding new_year_2024 by (simp add: representable_def IST_OFFSET_us dt_limit_us)
  show ?thesis
    using fresh_active_or_idle [OF h1 h2 h3 h4 h5 h6, of "''MCA-428''" "''Leni E''"]
    unfolding new_year_2024
    by (simp add: IST_OFFSET_us isoformat_new_year_2024_ist lower_examples)
qed

text \<open>
  Claim C8, amended. A fresh event whose lower-cased \<open>client_status\<close> is none of
  \<open>logged_out\<close>, \<open>active\<close>, \<open>idle\<close> gives focus \<open>N/A\<close> and the status \<open>Unknown (...)\<close>
  around the title-cased form of the lower-cased \<open>client_status\<close>: the route title-cases
  the string it has normalised, not the raw one. For a \<open>client_status\<close> of ASCII
  characters the two are the same string, so that \<open>away\<close> gives \<open>Unknown (Away)\<close>.
\<close>

theorem fresh_unrecognised_is_unknown:
  assumes "metadata e = PDict md"
    and "dict_get md ''client_status'' (PStr ''N/A'') = PStr raw"
    and "str_lower ucd raw \<notin> {''logged_out'', ''active'', ''idle''}"
    and "datetime_sub now (timedelta_of 0 ACTIVITY_TIMEOUT_MINUTES) = Inr timeout_threshold"
    and "\<not> server_timestamp e < now - timedelta_of 0 5"
    and "representable (server_timestamp e + IST_OFFSET)"
  shows "student_row ucd timeout_threshold sid name (Some e) =
           Inr \<lparr>row_id = sid, row_name = name,
                status = ''Unknown ('' @ str_title ucd (str_lower ucd raw) @ '')'',
                focus = ''N/A'', last_event = event_type e,
                timestamp = isoformat (server_timestamp e + IST_OFFSET)\<rparr>
         \<and> (is_ascii raw \<longrightarrow> str_title ucd (str_lower ucd raw) = str_title ucd raw)"
proof -
  have fresh: "\<not> server_timestamp e < timeout_threshold"
    using assms(4,5) timeout_threshold_eq by simp
  show ?thesis
    using assms(3) fresh
    by (simp add: student_row_Some [OF assms(1,2,6)] str_title_lower)
qed

theorem fresh_unrecognised_is_unknown_witness:
  "student_row ucd_sample (63839664000000000 + 60000000 - 300000000) ''MCA-428'' ''Leni E''
     (Some \<lparr>doc_id = None, other_fields = [], user_id = PStr ''MCA-428'',
            event_type = PStr ''heartbeat'',
            metadata = PDict [(''client_status'', PStr ''away''), (''tab_focused'', PBool True)],
            server_timestamp = mk_datetime 2024 1 1 0 0 0 0\<rparr>) =
   Inr \<lparr>row_id = ''MCA-428'', row_name = ''Leni E'', status = ''Unknown (Away)'',
        focus = ''N/A'', last_event = PStr ''heartbeat'', timestamp = ''2024-01-01T05:30:00''\<rparr>"
proof -
  let ?md = "[(''client_status'', PStr ''away''), (''tab_focused'', PBool True)]"
  let ?e = "\<lparr>doc_id = None, other_fields = [], user_id = PStr ''MCA-428'',
             event_type = PStr ''heartbeat'', metadata = PDict ?md,
             server_timestamp = mk_datetime 2024 1 1 0 0 0 0\<rparr>"
  let ?now = "63839664000000000 + 60000000 :: int"
  have h1: "metadata ?e = PDict ?md" by simp
  have h2: "dict_get ?md ''client_status'' (PStr ''N/A'') = PStr ''away''"
    by (simp add: dict_get_def)
  have h3: "str_lower ucd_sample ''away'' \<notin> {''logged_out'', ''active'', ''idle''}"
    by (simp add: lower_examples)
  have h4: "datetime_sub ?now (timedelta_of 0 ACTIVITY_TIMEOUT_MINUTES) = Inr (?now - 300000000)"
    by (simp add: datetime_sub_def datetime_add_def ACTIVITY_TIMEOUT_MINUTES_def
          five_minutes_us dt_limit_us)
  have h5: "\<not> server_timestamp ?e < ?now - timedelta_of 0 5"
    unfolding new_year_2024 by (simp add: five_minutes_us)
  have h6: "representable (server_timestamp ?e + IST_OFFSET)"
    unfolding new_year_2024 by (simp add: representable_def IST_OFFSET_us dt_limit_us)
  show ?thesis
    using fresh_unrecognised_is_unknown [OF h1 h2 h3 h4 h5 h6, of "''MCA-428''" "''Leni E''",
        THEN conjunct1]
    unfolding new_year_2024
    by (simp add: IST_OFFSET_us isoformat_new_year_2024_ist lower_examples title_examples)
qed

text \<open>
  Claim C8 as it was written, with the raw \<open>client_status\<close> title-cased, fails for the
  Kelvin sign: it lower-cases to \<open>k\<close>, which the route title-cases to the letter \<open>K\<close>,
  while the title-cased Kelvin sign is the Kelvin sign.
\<close>

theorem unknown_carries_raw_title_counterexample:
  "student_row ucd_sample (63839664000000000 + 60000000 - 300000000) ''MCA-428'' ''Leni E''
     (Some \<lparr>doc_id = None, other_fields = [], user_id = PStr ''MCA-428'',
            event_type = PStr ''heartbeat'',
            metadata = PDict [(''client_status'', PStr [CHR 0xE2, CHR 0x84, CHR 0xAA])],
            server_timestamp = 63839664000000000\<rparr>) =
   Inr \<lparr>row_id = ''MCA-428'', row_name = ''Leni E'', status = ''Unknown (K)'',
        focus = ''N/A'', last_event = PStr ''heartbeat'', timestamp = ''2024-01-01T05:30:00''\<rparr>
   \<and> ''Unknown ('' @ str_title ucd_sample [CHR 0xE2, CHR 0x84, CHR 0xAA] @ '')''
       \<noteq> ''Unknown (K)''"
proof -
  let ?raw = "[CHR 0xE2, CHR 0x84, CHR 0xAA]"
  let ?md = "[(''client_status'', PStr ?raw)]"
  let ?e = "\<lparr>doc_id = None, other_fields = [], user_id = PStr ''MCA-428'',
             event_type = PStr ''heartbeat'', metadata = PDict ?md,
             server_timestamp = 63839664000000000\<rparr>"
  have not_ascii: "\<not> is_ascii ?raw"
    by code_simp
  have lower: "str_lower ucd_sample ?raw = ''k''"
    using not_ascii by (simp add: str_lower_def ucd_sample_def kelvin_sign_def)
  have title: "str_title ucd_sample ?raw = ?raw"
    using not_ascii by (simp add: str_title_def ucd_sample_def)
  have h1: "metadata ?e = PDict ?md" by simp
  have h2: "dict_get ?md ''client_status'' (PStr ''N/A'') = PStr ?raw"
    by (simp add: dict_get_def)
  have h3: "representable (server_timestamp ?e + IST_OFFSET)"
    by (simp add: representable_def IST_OFFSET_us dt_limit_us)
  have row: "student_row ucd_sample (63839664000000000 + 60000000 - 300000000) ''MCA-428''
               ''Leni E'' (Some ?e) =
             Inr \<lparr>row_id = ''MCA-428'', row_name = ''Leni E'', status = ''Unknown (K)'',
                  focus = ''N/A'', last_event = PStr ''heartbeat'',
                  timestamp = ''2024-01-01T05:30:00''\<rparr>"
    unfolding student_row_Some [OF h1 h2 h3] lower
    by (simp add: title_examples IST_OFFSET_us isoformat_new_year_2024_ist)
  have differ: "''Unknown ('' @ str_title ucd_sample ?raw @ '')'' \<noteq> ''Unknown (K)''"
    unfolding title by simp
  show ?thesis
    using row differ by (rule conjI)
qed

text \<open>
  Claim C9. When \<open>metadata\<close> has no \<open>client_status\<close> key, the default \<open>N/A\<close> is used:
  the iteration does not raise, and the row is \<open>Unknown (N/A)\<close> with focus \<open>N/A\<close> when
  the event is fresh (and \<open>Offline (Inactive)\<close> when it is stale), never \<open>Active\<close> or
  \<open>Idle\<close>.
\<close>

theorem missing_client_status:
  assumes "metadata e = PDict md"
    and "map_of md ''client_status'' = None"
    and "datetime_sub now (timedelta_of 0 ACTIVITY_TIMEOUT_MINUTES) = Inr timeout_threshold"
    and "representable (server_timestamp e + IST_OFFSET)"
  shows "student_row ucd timeout_threshold sid name (Some e) =
           Inr \<lparr>row_id = sid, row_name = name,
                status = (if server_timestamp e < now - timedelta_of 0 5
                          then ''Offline (Inactive)'' else ''Unknown (N/A)''),
                focus = ''N/A'', last_event = event_type e,
                timestamp = isoformat (server_timestamp e + IST_OFFSET)\<rparr>"
proof -
  have dflt: "dict_get md ''client_status'' (PStr ''N/A'') = PStr ''N/A''"
    using assms(2) by (simp add: dict_get_def)
  have thr: "timeout_threshold = now - timedelta_of 0 5"
    using assms(3) by (rule timeout_threshold_eq)
  show ?thesis
    by (simp add: student_row_Some [OF assms(1) dflt assms(4)] thr lower_examples
          title_examples)
qed

theorem missing_client_status_witness:
  "student_row ucd_sample (63839664000000000 + 60000000 - 300000000) ''MCA-428'' ''Leni E''
     (Some \<lparr>doc_id = None, other_fields = [], user_id = PStr ''MCA-428'', event_type = PStr ''heartbeat'',
            metadata = PDict [(''tab_focused'', PBool True)],
            server_timestamp = mk_datetime 2024 1 1 0 0 0 0\<rparr>) =
   Inr \<lparr>row_id = ''MCA-428'', row_name = ''Leni E'', status = ''Unknown (N/A)'',
        focus = ''N/A'', last_event = PStr ''heartbeat'', timestamp = ''2024-01-01T05:30:00''\<rparr>"
proof -
  let ?md = "[(''tab_focused'', PBool True)]"
  let ?e = "\<lparr>doc_id = None, other_fields = [], user_id = PStr ''MCA-428'', event_type = PStr ''heartbeat'', metadata = PDict ?md,
             server_timestamp = mk_datetime 2024 1 1 0 0 0 0\<rparr>"
  let ?now = "63839664000000000 + 60000000 :: int"
  have h1: "metadata ?e = PDict ?md" by simp
  have h2: "map_of ?md ''client_status'' = None" by simp
  have h3: "datetime_sub ?now (timedelta_of 0 ACTIVITY_TIMEOUT_MINUTES) = Inr (?now - 300000000)"
    by (simp add: datetime_sub_def datetime_add_def ACTIVITY_TIMEOUT_MINUTES_def
          five_minutes_us dt_limit_us)
  have h4: "representable (server_timestamp ?e + IST_OFFSET)"
    unfolding new_year_2024 by (simp add: representable_def IST_OFFSET_us dt_limit_us)
  show ?thesis
    using missing_client_status [OF h1 h2 h3 h4, of ucd_sample "''MCA-428''" "''Leni E''"]
    unfolding new_year_2024
    by (simp add: IST_OFFSET_us isoformat_new_year_2024_ist five_minutes_us)
qed

text \<open>
  Claim C10. Two events that agree on \<open>metadata\<close> and \<open>server_timestamp\<close> give the same
  outcome up to the \<open>last_event\<close> field of the row, which is the event's \<open>event_type\<close>:
  the same exception or rows with the same status, focus and timestamp.
\<close>

theorem event_type_only_in_last_event:
  assumes "metadata e1 = metadata e2"
    and "server_timestamp e1 = server_timestamp e2"
  shows "student_row ucd timeout_threshold sid name (Some e1) =
           map_sum id (\<lambda>r. r\<lparr>last_event := event_type e1\<rparr>)
             (student_row ucd timeout_threshold sid name (Some e2))
         \<and> map_sum id status (student_row ucd timeout_threshold sid name (Some e1)) =
             map_sum id status (student_row ucd timeout_threshold sid name (Some e2))
         \<and> map_sum id focus (student_row ucd timeout_threshold sid name (Some e1)) =
             map_sum id focus (student_row ucd timeout_threshold sid name (Some e2))"
  using assms
  by (auto simp: student_row_def Let_def split: pyval.splits sum.splits)

theorem event_type_only_in_last_event_witness:
  "student_row ucd_sample 0 ''MCA-428'' ''Leni E''
     (Some \<lparr>doc_id = None, other_fields = [], user_id = PStr ''MCA-428'', event_type = PStr ''heartbeat'',
            metadata = PDict [(''client_status'', PStr ''active'')],
            server_timestamp = 63839664000000000\<rparr>) =
   map_sum id (\<lambda>r. r\<lparr>last_event := PStr ''heartbeat''\<rparr>)
     (student_row ucd_sample 0 ''MCA-428'' ''Leni E''
       (Some \<lparr>doc_id = None, other_fields = [], user_id = PStr ''MCA-428'', event_type = PStr ''logout'',
              metadata = PDict [(''client_status'', PStr ''active'')],
              server_timestamp = 63839664000000000\<rparr>))"
proof -
  let ?e1 = "\<lparr>doc_id = None, other_fields = [], user_id = PStr ''MCA-428'', event_type = PStr ''heartbeat'',
              metadata = PDict [(''client_status'', PStr ''active'')],
              server_timestamp = 63839664000000000\<rparr>"
  let ?e2 = "\<lparr>doc_id = None, other_fields = [], user_id = PStr ''MCA-428'', event_type = PStr ''logout'',
              metadata = PDict [(''client_status'', PStr ''active'')],
              server_timestamp = 63839664000000000\<rparr>"
  have h1: "metadata ?e1 = metadata ?e2" by simp
  have h2: "server_timestamp ?e1 = server_timestamp ?e2" by simp
  show ?thesis
    using event_type_only_in_last_event [OF h1 h2, of ucd_sample 0 "''MCA-428''" "''Leni E''"] by simp
qed

subsection \<open>The report as a whole\<close>

text \<open>
  Claim C3. A student without a stored event gets the row \<open>Never Logged In\<close>, \<open>N/A\<close>,
  \<open>None\<close>, \<open>N/A\<close>: the loop body returns it for every threshold, hence for every \<open>now\<close>,
  and every report that is produced holds it for each student none of whose events is in
  the collection.
\<close>

theorem no_event_never_logged_in:
  "student_row ucd timeout_threshold sid name None =
     Inr \<lparr>row_id = sid, row_name = name, status = ''Never Logged In'', focus = ''N/A'',
          last_event = PStr ''None'', timestamp = ''N/A''\<rparr>
   \<and> (student_report ucd users events now = Inr rows \<and> i < length rows \<and>
        (\<forall>e \<in> set events. user_id e \<noteq> PStr (row_id (rows ! i)))
      \<longrightarrow> rows ! i =
            \<lparr>row_id = fst (all_students users ! i), row_name = snd (all_students users ! i),
             status = ''Never Logged In'', focus = ''N/A'',
             last_event = PStr ''None'', timestamp = ''N/A''\<rparr>)"
proof (intro conjI impI)
  show "student_row ucd timeout_threshold sid name None =
     Inr \<lparr>row_id = sid, row_name = name, status = ''Never Logged In'', focus = ''N/A'',
          last_event = PStr ''None'', timestamp = ''N/A''\<rparr>"
    by (simp add: student_row_def)
next
  assume a: "student_report ucd users events now = Inr rows \<and> i < length rows \<and>
        (\<forall>e \<in> set events. user_id e \<noteq> PStr (row_id (rows ! i)))"
  then have rep: "student_report ucd users events now = Inr rows" and i: "i < length rows"
    and none: "\<forall>e \<in> set events. user_id e \<noteq> PStr (row_id (rows ! i))"
    by simp_all
  have "student_row ucd (now - timedelta_of 0 5) (row_id (rows ! i)) (row_name (rows ! i)) None
          = Inr (rows ! i)"
    using report_row_latest [OF rep i] none by simp
  moreover have "(row_id (rows ! i), row_name (rows ! i)) = all_students users ! i"
    using report_row_source [OF rep i] by blast
  ultimately show "rows ! i =
            \<lparr>row_id = fst (all_students users ! i), row_name = snd (all_students users ! i),
             status = ''Never Logged In'', focus = ''N/A'',
             last_event = PStr ''None'', timestamp = ''N/A''\<rparr>"
    by (simp add: student_row_def prod_eq_iff)
qed

theorem no_event_never_logged_in_witness:
  "student_report ucd_sample MOCK_USERS [] 63839664000000000 =
     Inr [\<lparr>row_id = ''MCA-428'', row_name = ''Leni E'', status = ''Never Logged In'',
           focus = ''N/A'', last_event = PStr ''None'', timestamp = ''N/A''\<rparr>,
          \<lparr>row_id = ''MCA-112'', row_name = ''Soni Priya'', status = ''Never Logged In'',
           focus = ''N/A'', last_event = PStr ''None'', timestamp = ''N/A''\<rparr>]
   \<and> [\<lparr>row_id = ''MCA-428'', row_name = ''Leni E'', status = ''Never Logged In'',
           focus = ''N/A'', last_event = PStr ''None'', timestamp = ''N/A''\<rparr>,
          \<lparr>row_id = ''MCA-112'', row_name = ''Soni Priya'', status = ''Never Logged In'',
           focus = ''N/A'', last_event = PStr ''None'', timestamp = ''N/A''\<rparr>] ! 1 =
      \<lparr>row_id = ''MCA-112'', row_name = ''Soni Priya'', status = ''Never Logged In'',
           focus = ''N/A'', last_event = PStr ''None'', timestamp = ''N/A''\<rparr>"
proof -
  let ?rows = "[\<lparr>row_id = ''MCA-428'', row_name = ''Leni E'', status = ''Never Logged In'',
           focus = ''N/A'', last_event = PStr ''None'', timestamp = ''N/A''\<rparr>,
          \<lparr>row_id = ''MCA-112'', row_name = ''Soni Priya'', status = ''Never Logged In'',
           focus = ''N/A'', last_event = PStr ''None'', timestamp = ''N/A''\<rparr>]"
  have rep: "student_report ucd_sample MOCK_USERS [] 63839664000000000 = Inr ?rows"
    by code_simp
  have h: "student_report ucd_sample MOCK_USERS [] 63839664000000000 = Inr ?rows \<and> 1 < length ?rows \<and>
        (\<forall>e \<in> set []. user_id e \<noteq> PStr (row_id (?rows ! 1)))"
    using rep by simp
  show ?thesis
    using no_event_never_logged_in [of ucd_sample 0 "''x''" "''y''" MOCK_USERS "[]" 63839664000000000 ?rows 1] h
    by (simp add: all_students_MOCK_USERS)
qed

text \<open>
  Claim C4. With ids unique within the directory, a report that is produced has exactly
  one row per student entry of the directory, in the directory's order, carrying that
  entry's id and name; no row carries the id of an entry that is not a student; so the
  number of rows does not depend on the collection. A report is produced for every
  collection of well-typed events, the empty one included (\<open>now\<close> minus five minutes
  being representable).
\<close>

theorem one_row_per_student:
  assumes "distinct (map uid (map snd users))"
  shows "(get_student_data ucd True users events now = Response 200 True (Some rows) \<longrightarrow>
            map (\<lambda>r. (row_id r, row_name r)) rows =
              map (\<lambda>u. (uid u, uname u)) (filter (\<lambda>u. role u = ''student'') (map snd users))
            \<and> length rows = length (filter (\<lambda>u. role u = ''student'') (map snd users))
            \<and> (\<forall>u \<in> set (map snd users). role u \<noteq> ''student'' \<longrightarrow> uid u \<notin> row_id ` set rows))
         \<and> (representable (now - timedelta_of 0 5) \<and> (\<forall>e \<in> set events. well_typed e) \<longrightarrow>
              (\<exists>rows. get_student_data ucd True users events now = Response 200 True (Some rows)))"
proof (intro conjI impI)
  let ?students = "filter (\<lambda>u. role u = ''student'') (map snd users)"
  have dist: "distinct (map uid ?students)"
    using assms by (rule distinct_map_filter)
  assume "get_student_data ucd True users events now = Response 200 True (Some rows)"
  then have rep: "student_report ucd users events now = Inr rows"
    by (simp add: get_student_data_report)
  show rows: "map (\<lambda>r. (row_id r, row_name r)) rows = map (\<lambda>u. (uid u, uname u)) ?students"
    using report_rows_students [OF rep] all_students_distinct [OF dist] by simp
  show "length rows = length ?students"
    using map_eq_imp_length_eq [OF rows] .
  have ids: "map row_id rows = map uid ?students"
    using arg_cong [OF rows, of "map fst"] by (simp add: comp_def)
  show "\<forall>u \<in> set (map snd users). role u \<noteq> ''student'' \<longrightarrow> uid u \<notin> row_id ` set rows"
  proof (intro ballI impI notI)
    fix u assume u: "u \<in> set (map snd users)" "role u \<noteq> ''student''" "uid u \<in> row_id ` set rows"
    have "row_id ` set rows = uid ` set ?students"
      using arg_cong [OF ids, of set] by simp
    then have "uid u \<in> uid ` set ?students"
      using u(3) by simp
    then obtain u' where mem: "u' \<in> set ?students" and same: "uid u = uid u'"
      by (rule imageE)
    have u': "u' \<in> set (map snd users)" "role u' = ''student''" "uid u' = uid u"
      using mem same by simp_all
    have "inj_on uid (set (map snd users))"
      using assms by (simp only: distinct_map)
    then have "u' = u"
      using u'(3) u'(1) u(1) by (rule inj_onD)
    then show False
      using u(2) u'(2) by simp
  qed
next
  assume "representable (now - timedelta_of 0 5) \<and> (\<forall>e \<in> set events. well_typed e)"
  then obtain rows where "student_report ucd users events now = Inr rows"
    using student_report_total by blast
  then show "\<exists>rows. get_student_data ucd True users events now = Response 200 True (Some rows)"
    by (auto simp: get_student_data_report)
qed

theorem one_row_per_student_witness:
  "distinct (map uid (map snd MOCK_USERS)) \<and>
   get_student_data ucd_sample True MOCK_USERS
     [\<lparr>doc_id = None, other_fields = [], user_id = PStr ''MCA-428'', event_type = PStr ''heartbeat'',
         metadata = PDict [(''client_status'', PStr ''active''), (''tab_focused'', PBool True)],
         server_timestamp = 63839663940000000\<rparr>,
      \<lparr>doc_id = None, other_fields = [], user_id = PStr ''MCA-428'', event_type = PStr ''heartbeat'',
         metadata = PDict [(''client_status'', PStr ''active''), (''tab_focused'', PBool True)],
         server_timestamp = 63839664000000000\<rparr>] 63839664060000000 =
     Response 200 True (Some [\<lparr>row_id = ''MCA-428'', row_name = ''Leni E'', status = ''Active'', focus = ''Focused'',
          last_event = PStr ''heartbeat'', timestamp = ''2024-01-01T05:30:00''\<rparr>,
         \<lparr>row_id = ''MCA-112'', row_name = ''Soni Priya'', status = ''Never Logged In'',
          focus = ''N/A'', last_event = PStr ''None'', timestamp = ''N/A''\<rparr>]) \<and>
   map (\<lambda>r. (row_id r, row_name r))
     [\<lparr>row_id = ''MCA-428'', row_name = ''Leni E'', status = ''Active'', focus = ''Focused'',
          last_event = PStr ''heartbeat'', timestamp = ''2024-01-01T05:30:00''\<rparr>,
         \<lparr>row_id = ''MCA-112'', row_name = ''Soni Priya'', status = ''Never Logged In'',
          focus = ''N/A'', last_event = PStr ''None'', timestamp = ''N/A''\<rparr>] =
     [(''MCA-428'', ''Leni E''), (''MCA-112'', ''Soni Priya'')] \<and>
   length [\<lparr>row_id = ''MCA-428'', row_name = ''Leni E'', status = ''Active'', focus = ''Focused'',
          last_event = PStr ''heartbeat'', timestamp = ''2024-01-01T05:30:00''\<rparr>,
         \<lparr>row_id = ''MCA-112'', row_name = ''Soni Priya'', status = ''Never Logged In'',
          focus = ''N/A'', last_event = PStr ''None'', timestamp = ''N/A''\<rparr>] = 2"
proof -
  let ?events = "[\<lparr>doc_id = None, other_fields = [], user_id = PStr ''MCA-428'', event_type = PStr ''heartbeat'',
         metadata = PDict [(''client_status'', PStr ''active''), (''tab_focused'', PBool True)],
         server_timestamp = 63839663940000000\<rparr>,
      \<lparr>doc_id = None, other_fields = [], user_id = PStr ''MCA-428'', event_type = PStr ''heartbeat'',
         metadata = PDict [(''client_status'', PStr ''active''), (''tab_focused'', PBool True)],
         server_timestamp = 63839664000000000\<rparr>]"
  let ?rows = "[\<lparr>row_id = ''MCA-428'', row_name = ''Leni E'', status = ''Active'', focus = ''Focused'',
          last_event = PStr ''heartbeat'', timestamp = ''2024-01-01T05:30:00''\<rparr>,
         \<lparr>row_id = ''MCA-112'', row_name = ''Soni Priya'', status = ''Never Logged In'',
          focus = ''N/A'', last_event = PStr ''None'', timestamp = ''N/A''\<rparr>]"
  have g: "get_student_data ucd_sample True MOCK_USERS ?events 63839664060000000 = Response 200 True (Some ?rows)"
    using example_report by (simp only: get_student_data_report)
  have students: "map (\<lambda>u. (uid u, uname u)) (filter (\<lambda>u. role u = ''student'') (map snd MOCK_USERS)) =
      [(''MCA-428'', ''Leni E''), (''MCA-112'', ''Soni Priya'')]"
    by (simp add: MOCK_USERS_def)
  have "map (\<lambda>r. (row_id r, row_name r)) ?rows =
          map (\<lambda>u. (uid u, uname u)) (filter (\<lambda>u. role u = ''student'') (map snd MOCK_USERS))"
    using one_row_per_student [OF distinct_MOCK_USERS, of ucd_sample ?events 63839664060000000 ?rows] g by blast
  then show ?thesis
    using g distinct_MOCK_USERS unfolding students by simp
qed

text \<open>
  Claim C5. In a report that is produced, the row of a student none of whose events is
  stored is the row of the absent event; otherwise it is the row that the loop body
  derives from one event of that student whose \<open>server_timestamp\<close> is the greatest
  among that student's events, and from nothing else in the collection. In particular,
  for the same payload handed to \<open>track_attendance\<close> twice, at \<open>t1\<close> and then at \<open>t2\<close>:
  both requests are answered 200 exactly when the payload has the three required keys,
  no \<open>_id\<close> and no integer beyond eight bytes, and the store accepts both writes; and
  when both are answered 200, with \<open>t2\<close> strictly later (at the millisecond the store
  keeps) than the student's earlier events, two more events are stored and the row is
  the one derived from the event recorded at \<open>t2\<close>.
\<close>

theorem latest_event_wins:
  "(student_report ucd users events now = Inr rows \<and> i < length rows \<longrightarrow>
      (if \<forall>e \<in> set events. user_id e \<noteq> PStr (row_id (rows ! i))
       then student_row ucd (now - timedelta_of 0 5) (row_id (rows ! i)) (row_name (rows ! i)) None
              = Inr (rows ! i)
       else \<exists>e \<in> set events. user_id e = PStr (row_id (rows ! i)) \<and>
              (\<forall>e' \<in> set events. user_id e' = PStr (row_id (rows ! i)) \<longrightarrow>
                  server_timestamp e' \<le> server_timestamp e) \<and>
              student_row ucd (now - timedelta_of 0 5) (row_id (rows ! i)) (row_name (rows ! i))
                (Some e) = Inr (rows ! i)))
   \<and> (let first = track_attendance True accepts1 data t1 events;
           second = track_attendance True accepts2 data t2 (snd first);
           stored = snd second;
           latest = (posted_event data t2)\<lparr>server_timestamp := bson_datetime t2\<rparr>
       in ((fst first = Response 200 True None \<and> fst second = Response 200 True None) =
             ({''user_id'', ''event_type'', ''metadata''} \<subseteq> fst ` set data \<and>
              map_of data ''_id'' = None \<and>
              list_all bson_encodable (document_values (posted_event data t1)) \<and>
              accepts1 \<and> accepts2))
          \<and> (fst first = Response 200 True None \<and> fst second = Response 200 True None \<and>
              dict_get data ''user_id'' PNone = PStr sid \<and> t1 \<le> t2 \<and>
              (\<forall>e \<in> set events. user_id e = PStr sid \<longrightarrow>
                  server_timestamp e < bson_datetime t2) \<and>
              student_report ucd users stored now = Inr rows' \<and> j < length rows' \<and>
              row_id (rows' ! j) = sid
              \<longrightarrow> length stored = length events + 2 \<and>
                  student_row ucd (now - timedelta_of 0 5) sid (row_name (rows' ! j)) (Some latest)
                    = Inr (rows' ! j)))"
proof (rule conjI)
  show "student_report ucd users events now = Inr rows \<and> i < length rows \<longrightarrow>
      (if \<forall>e \<in> set events. user_id e \<noteq> PStr (row_id (rows ! i))
       then student_row ucd (now - timedelta_of 0 5) (row_id (rows ! i)) (row_name (rows ! i)) None
              = Inr (rows ! i)
       else \<exists>e \<in> set events. user_id e = PStr (row_id (rows ! i)) \<and>
              (\<forall>e' \<in> set events. user_id e' = PStr (row_id (rows ! i)) \<longrightarrow>
                  server_timestamp e' \<le> server_timestamp e) \<and>
              student_row ucd (now - timedelta_of 0 5) (row_id (rows ! i)) (row_name (rows ! i))
                (Some e) = Inr (rows ! i))"
    using report_row_latest [of ucd users events now rows i] by blast
next
  define ev where "ev t = (posted_event data t)\<lparr>server_timestamp := bson_datetime t\<rparr>" for t
  define first where "first = track_attendance True accepts1 data t1 events"
  define second where "second = track_attendance True accepts2 data t2 (snd first)"
  define stored where "stored = snd second"
  have twice: "(fst first = Response 200 True None \<and> fst second = Response 200 True None) =
             ({''user_id'', ''event_type'', ''metadata''} \<subseteq> fst ` set data \<and>
              map_of data ''_id'' = None \<and>
              list_all bson_encodable (document_values (posted_event data t1)) \<and>
              accepts1 \<and> accepts2)"
    unfolding first_def second_def first_def by (rule track_attendance_twice_200_iff)
  have latest: "length stored = length events + 2 \<and>
          student_row ucd (now - timedelta_of 0 5) sid (row_name (rows' ! j)) (Some (ev t2))
            = Inr (rows' ! j)"
    if ok1: "fst first = Response 200 True None"
      and ok2: "fst second = Response 200 True None"
      and sid: "dict_get data ''user_id'' PNone = PStr sid"
      and le: "t1 \<le> t2"
      and older: "\<forall>e \<in> set events. user_id e = PStr sid \<longrightarrow> server_timestamp e < bson_datetime t2"
      and rep: "student_report ucd users stored now = Inr rows'"
      and j: "j < length rows'"
      and row: "row_id (rows' ! j) = sid"
  proof -
    have s1: "snd first = events @ [ev t1]"
      using ok1 unfolding first_def ev_def by (simp add: track_attendance_snd)
    have stored: "stored = events @ [ev t1, ev t2]"
      using ok2 unfolding stored_def second_def s1 ev_def by (simp add: track_attendance_snd)
    have ev_user: "user_id (ev t) = PStr sid" for t
      using sid by (simp add: ev_def posted_event_def)
    have ev_time: "server_timestamp (ev t) = bson_datetime t" for t
      by (simp add: ev_def)
    have ev_same: "ev t = ev t'" if "bson_datetime t = bson_datetime t'" for t t'
      using that by (simp add: ev_def posted_event_def)
    have some: "\<not> (\<forall>e \<in> set stored. user_id e \<noteq> PStr sid)"
      by (simp add: stored ev_user)
    have "if \<forall>e \<in> set stored. user_id e \<noteq> PStr sid
          then student_row ucd (now - timedelta_of 0 5) sid (row_name (rows' ! j)) None
                 = Inr (rows' ! j)
          else \<exists>e \<in> set stored. user_id e = PStr sid \<and>
                 (\<forall>e' \<in> set stored. user_id e' = PStr sid \<longrightarrow>
                     server_timestamp e' \<le> server_timestamp e) \<and>
                 student_row ucd (now - timedelta_of 0 5) sid (row_name (rows' ! j)) (Some e)
                   = Inr (rows' ! j)"
      using report_row_latest [OF rep j] unfolding row .
    then have "\<exists>e \<in> set stored. user_id e = PStr sid \<and>
                 (\<forall>e' \<in> set stored. user_id e' = PStr sid \<longrightarrow>
                     server_timestamp e' \<le> server_timestamp e) \<and>
                 student_row ucd (now - timedelta_of 0 5) sid (row_name (rows' ! j)) (Some e)
                   = Inr (rows' ! j)"
      using some by (simp only: if_False)
    then obtain e where e: "e \<in> set stored" "user_id e = PStr sid"
      and newest: "\<forall>e' \<in> set stored. user_id e' = PStr sid \<longrightarrow>
                     server_timestamp e' \<le> server_timestamp e"
      and derived: "student_row ucd (now - timedelta_of 0 5) sid (row_name (rows' ! j)) (Some e)
                      = Inr (rows' ! j)"
      by blast
    have "server_timestamp (ev t2) \<le> server_timestamp e"
      using newest by (simp add: stored ev_user)
    then have after: "bson_datetime t2 \<le> server_timestamp e"
      by (simp add: ev_time)
    have "e \<notin> set events"
      using older e(2) after by force
    then consider "e = ev t1" | "e = ev t2"
      using e(1) by (auto simp: stored)
    then have "e = ev t2"
    proof cases
      case 1
      then have "bson_datetime t2 \<le> bson_datetime t1"
        using after by (simp add: ev_time)
      then have "bson_datetime t1 = bson_datetime t2"
        using bson_datetime_mono [OF le] by simp
      then have "ev t1 = ev t2"
        by (rule ev_same)
      then show ?thesis
        using 1 by (simp only:)
    next
      case 2
      then show ?thesis .
    qed
    then show ?thesis
      using derived by (simp add: stored)
  qed
  show "let first = track_attendance True accepts1 data t1 events;
           second = track_attendance True accepts2 data t2 (snd first);
           stored = snd second;
           latest = (posted_event data t2)\<lparr>server_timestamp := bson_datetime t2\<rparr>
       in ((fst first = Response 200 True None \<and> fst second = Response 200 True None) =
             ({''user_id'', ''event_type'', ''metadata''} \<subseteq> fst ` set data \<and>
              map_of data ''_id'' = None \<and>
              list_all bson_encodable (document_values (posted_event data t1)) \<and>
              accepts1 \<and> accepts2))
          \<and> (fst first = Response 200 True None \<and> fst second = Response 200 True None \<and>
              dict_get data ''user_id'' PNone = PStr sid \<and> t1 \<le> t2 \<and>
              (\<forall>e \<in> set events. user_id e = PStr sid \<longrightarrow>
                  server_timestamp e < bson_datetime t2) \<and>
              student_report ucd users stored now = Inr rows' \<and> j < length rows' \<and>
              row_id (rows' ! j) = sid
              \<longrightarrow> length stored = length events + 2 \<and>
                  student_row ucd (now - timedelta_of 0 5) sid (row_name (rows' ! j)) (Some latest)
                    = Inr (rows' ! j))"
    unfolding Let_def first_def [symmetric] second_def [symmetric] stored_def [symmetric]
      ev_def [symmetric]
    using twice latest by blast
qed

theorem latest_event_wins_witness:
  "track_attendance True True
     [(''user_id'', PStr ''MCA-428''), (''event_type'', PStr ''heartbeat''),
        (''metadata'', PDict [(''client_status'', PStr ''active''), (''tab_focused'', PBool True)])] 63839663940000000 [] =
     (Response 200 True None,
      [\<lparr>doc_id = None, other_fields = [], user_id = PStr ''MCA-428'', event_type = PStr ''heartbeat'',
         metadata = PDict [(''client_status'', PStr ''active''), (''tab_focused'', PBool True)],
         server_timestamp = 63839663940000000\<rparr>]) \<and>
   track_attendance True True
     [(''user_id'', PStr ''MCA-428''), (''event_type'', PStr ''heartbeat''),
        (''metadata'', PDict [(''client_status'', PStr ''active''), (''tab_focused'', PBool True)])] 63839664000000000
     [\<lparr>doc_id = None, other_fields = [], user_id = PStr ''MCA-428'', event_type = PStr ''heartbeat'',
         metadata = PDict [(''client_status'', PStr ''active''), (''tab_focused'', PBool True)],
         server_timestamp = 63839663940000000\<rparr>] =
     (Response 200 True None,
      [\<lparr>doc_id = None, other_fields = [], user_id = PStr ''MCA-428'', event_type = PStr ''heartbeat'',
         metadata = PDict [(''client_status'', PStr ''active''), (''tab_focused'', PBool True)],
         server_timestamp = 63839663940000000\<rparr>,
       \<lparr>doc_id = None, other_fields = [], user_id = PStr ''MCA-428'', event_type = PStr ''heartbeat'',
         metadata = PDict [(''client_status'', PStr ''active''), (''tab_focused'', PBool True)],
         server_timestamp = 63839664000000000\<rparr>]) \<and>
   student_report ucd_sample MOCK_USERS
     [\<lparr>doc_id = None, other_fields = [], user_id = PStr ''MCA-428'', event_type = PStr ''heartbeat'',
         metadata = PDict [(''client_status'', PStr ''active''), (''tab_focused'', PBool True)],
         server_timestamp = 63839663940000000\<rparr>,
      \<lparr>doc_id = None, other_fields = [], user_id = PStr ''MCA-428'', event_type = PStr ''heartbeat'',
         metadata = PDict [(''client_status'', PStr ''active''), (''tab_focused'', PBool True)],
         server_timestamp = 63839664000000000\<rparr>] 63839664060000000 =
     Inr [\<lparr>row_id = ''MCA-428'', row_name = ''Leni E'', status = ''Active'', focus = ''Focused'',
          last_event = PStr ''heartbeat'', timestamp = ''2024-01-01T05:30:00''\<rparr>,
         \<lparr>row_id = ''MCA-112'', row_name = ''Soni Priya'', status = ''Never Logged In'',
          focus = ''N/A'', last_event = PStr ''None'', timestamp = ''N/A''\<rparr>] \<and>
   student_row ucd_sample (63839664060000000 - timedelta_of 0 5) ''MCA-428'' ''Leni E''
     (Some \<lparr>doc_id = None, other_fields = [], user_id = PStr ''MCA-428'', event_type = PStr ''heartbeat'',
         metadata = PDict [(''client_status'', PStr ''active''), (''tab_focused'', PBool True)],
         server_timestamp = 63839664000000000\<rparr>) =
     Inr ([\<lparr>row_id = ''MCA-428'', row_name = ''Leni E'', status = ''Active'', focus = ''Focused'',
          last_event = PStr ''heartbeat'', timestamp = ''2024-01-01T05:30:00''\<rparr>,
         \<lparr>row_id = ''MCA-112'', row_name = ''Soni Priya'', status = ''Never Logged In'',
          focus = ''N/A'', last_event = PStr ''None'', timestamp = ''N/A''\<rparr>] ! 0)"
proof -
  let ?data = "[(''user_id'', PStr ''MCA-428''), (''event_type'', PStr ''heartbeat''),
        (''metadata'', PDict [(''client_status'', PStr ''active''), (''tab_focused'', PBool True)])]"
  let ?e1 = "\<lparr>doc_id = None, other_fields = [], user_id = PStr ''MCA-428'', event_type = PStr ''heartbeat'',
         metadata = PDict [(''client_status'', PStr ''active''), (''tab_focused'', PBool True)],
         server_timestamp = 63839663940000000\<rparr>"
  let ?e2 = "\<lparr>doc_id = None, other_fields = [], user_id = PStr ''MCA-428'', event_type = PStr ''heartbeat'',
         metadata = PDict [(''client_status'', PStr ''active''), (''tab_focused'', PBool True)],
         server_timestamp = 63839664000000000\<rparr>"
  let ?rows = "[\<lparr>row_id = ''MCA-428'', row_name = ''Leni E'', status = ''Active'', focus = ''Focused'',
          last_event = PStr ''heartbeat'', timestamp = ''2024-01-01T05:30:00''\<rparr>,
         \<lparr>row_id = ''MCA-112'', row_name = ''Soni Priya'', status = ''Never Logged In'',
          focus = ''N/A'', last_event = PStr ''None'', timestamp = ''N/A''\<rparr>]"
  have latest: "(posted_event ?data 63839664000000000)
                  \<lparr>server_timestamp := bson_datetime 63839664000000000\<rparr> = ?e2"
    by (simp add: posted_event_def dict_get_def bson_datetime_def)
  have h: "Response 200 True None = Response 200 True None \<and>
       Response 200 True None = Response 200 True None \<and>
       dict_get ?data ''user_id'' PNone = PStr ''MCA-428'' \<and>
       (63839663940000000 :: int) \<le> 63839664000000000 \<and>
       (\<forall>e \<in> set []. user_id e = PStr ''MCA-428'' \<longrightarrow>
           server_timestamp e < bson_datetime 63839664000000000) \<and>
       student_report ucd_sample MOCK_USERS [?e1, ?e2] 63839664060000000 = Inr ?rows \<and>
       0 < length ?rows \<and> row_id (?rows ! 0) = ''MCA-428''"
    using example_report by (simp add: dict_get_def)
  have "student_row ucd_sample (63839664060000000 - timedelta_of 0 5) ''MCA-428''
          (row_name (?rows ! 0))
          (Some ((posted_event ?data 63839664000000000)
                   \<lparr>server_timestamp := bson_datetime 63839664000000000\<rparr>)) = Inr (?rows ! 0)"
    using latest_event_wins [where ucd = ucd_sample and users = MOCK_USERS and events = "[]"
        and now = 63839664060000000 and data = ?data and ?t1.0 = 63839663940000000
        and ?t2.0 = 63839664000000000 and sid = "''MCA-428''" and rows' = ?rows and j = 0
        and ?accepts1.0 = True and ?accepts2.0 = True,
        THEN conjunct2, unfolded Let_def example_stored fst_conv snd_conv, THEN conjunct2] h
    by blast
  then show ?thesis
    unfolding latest using example_stored example_report by simp
qed

text \<open>
  Claim C6. In a report that is produced, the row of a student with a stored event
  shows, as its timestamp, the \<open>isoformat\<close> rendering of the \<open>server_timestamp\<close> of that
  student's latest event plus the offset of 5 hours 30 minutes. The rendering consists
  of digits and the separators \<open>-\<close>, \<open>T\<close>, \<open>:\<close> and \<open>.\<close> only, and has the 19
  characters of \<open>YYYY-MM-DDTHH:MM:SS\<close>, or 26 with the microseconds when they are not
  zero: it carries neither \<open>Z\<close> nor a \<open>+05:30\<close> suffix. An event stamped 2024-01-01T00:00:00 is displayed as
  \<open>2024-01-01T05:30:00\<close>.
\<close>

theorem displayed_timestamp:
  assumes "student_report ucd users events now = Inr rows" and "i < length rows"
    and "\<exists>e \<in> set events. user_id e = PStr (row_id (rows ! i))"
  shows "\<exists>e \<in> set events. user_id e = PStr (row_id (rows ! i)) \<and>
           (\<forall>e' \<in> set events. user_id e' = PStr (row_id (rows ! i)) \<longrightarrow>
               server_timestamp e' \<le> server_timestamp e) \<and>
           representable (server_timestamp e + IST_OFFSET) \<and>
           timestamp (rows ! i) = isoformat (server_timestamp e + IST_OFFSET) \<and>
           set (timestamp (rows ! i)) \<subseteq> set ''0123456789-T:.'' \<and>
           length (timestamp (rows ! i)) =
             (if (server_timestamp e + IST_OFFSET) mod 1000000 = 0 then 19 else 26)"
proof -
  have some: "\<not> (\<forall>e \<in> set events. user_id e \<noteq> PStr (row_id (rows ! i)))"
    using assms(3) by blast
  have "\<exists>e \<in> set events. user_id e = PStr (row_id (rows ! i)) \<and>
          (\<forall>e' \<in> set events. user_id e' = PStr (row_id (rows ! i)) \<longrightarrow>
              server_timestamp e' \<le> server_timestamp e) \<and>
          student_row ucd (now - timedelta_of 0 5) (row_id (rows ! i)) (row_name (rows ! i))
            (Some e) = Inr (rows ! i)"
    using report_row_latest [OF assms(1,2)] some by (simp only: if_False)
  then obtain e where e: "e \<in> set events" "user_id e = PStr (row_id (rows ! i))"
    and newest: "\<forall>e' \<in> set events. user_id e' = PStr (row_id (rows ! i)) \<longrightarrow>
                   server_timestamp e' \<le> server_timestamp e"
    and derived: "student_row ucd (now - timedelta_of 0 5) (row_id (rows ! i))
                    (row_name (rows ! i)) (Some e) = Inr (rows ! i)"
    by blast
  have shown: "timestamp (rows ! i) = isoformat (server_timestamp e + IST_OFFSET)"
    using student_row_timestamp [OF derived] by simp
  have inside: "representable (server_timestamp e + IST_OFFSET)"
    using derived by (rule student_row_Some_cases)
  have chars: "set (timestamp (rows ! i)) \<subseteq> set ''0123456789-T:.''"
    unfolding shown by (rule isoformat_chars)
  have len: "length (timestamp (rows ! i)) =
               (if (server_timestamp e + IST_OFFSET) mod 1000000 = 0 then 19 else 26)"
    unfolding shown using inside by (rule length_isoformat)
  show ?thesis
    using e newest shown inside chars len by blast
qed

theorem displayed_timestamp_witness:
  "student_report ucd_sample MOCK_USERS
     [\<lparr>doc_id = None, other_fields = [], user_id = PStr ''MCA-428'', event_type = PStr ''heartbeat'',
         metadata = PDict [(''client_status'', PStr ''active''), (''tab_focused'', PBool True)],
         server_timestamp = 63839663940000000\<rparr>,
      \<lparr>doc_id = None, other_fields = [], user_id = PStr ''MCA-428'', event_type = PStr ''heartbeat'',
         metadata = PDict [(''client_status'', PStr ''active''), (''tab_focused'', PBool True)],
         server_timestamp = 63839664000000000\<rparr>] 63839664060000000 =
     Inr [\<lparr>row_id = ''MCA-428'', row_name = ''Leni E'', status = ''Active'', focus = ''Focused'',
          last_event = PStr ''heartbeat'', timestamp = ''2024-01-01T05:30:00''\<rparr>,
         \<lparr>row_id = ''MCA-112'', row_name = ''Soni Priya'', status = ''Never Logged In'',
          focus = ''N/A'', last_event = PStr ''None'', timestamp = ''N/A''\<rparr>] \<and>
   timestamp ([\<lparr>row_id = ''MCA-428'', row_name = ''Leni E'', status = ''Active'', focus = ''Focused'',
          last_event = PStr ''heartbeat'', timestamp = ''2024-01-01T05:30:00''\<rparr>,
         \<lparr>row_id = ''MCA-112'', row_name = ''Soni Priya'', status = ''Never Logged In'',
          focus = ''N/A'', last_event = PStr ''None'', timestamp = ''N/A''\<rparr>] ! 0) = isoformat (mk_datetime 2024 1 1 0 0 0 0 + IST_OFFSET) \<and>
   timestamp ([\<lparr>row_id = ''MCA-428'', row_name = ''Leni E'', status = ''Active'', focus = ''Focused'',
          last_event = PStr ''heartbeat'', timestamp = ''2024-01-01T05:30:00''\<rparr>,
         \<lparr>row_id = ''MCA-112'', row_name = ''Soni Priya'', status = ''Never Logged In'',
          focus = ''N/A'', last_event = PStr ''None'', timestamp = ''N/A''\<rparr>] ! 0) = ''2024-01-01T05:30:00''"
proof -
  let ?e1 = "\<lparr>doc_id = None, other_fields = [], user_id = PStr ''MCA-428'', event_type = PStr ''heartbeat'',
         metadata = PDict [(''client_status'', PStr ''active''), (''tab_focused'', PBool True)],
         server_timestamp = 63839663940000000\<rparr>"
  let ?e2 = "\<lparr>doc_id = None, other_fields = [], user_id = PStr ''MCA-428'', event_type = PStr ''heartbeat'',
         metadata = PDict [(''client_status'', PStr ''active''), (''tab_focused'', PBool True)],
         server_timestamp = 63839664000000000\<rparr>"
  let ?rows = "[\<lparr>row_id = ''MCA-428'', row_name = ''Leni E'', status = ''Active'', focus = ''Focused'',
          last_event = PStr ''heartbeat'', timestamp = ''2024-01-01T05:30:00''\<rparr>,
         \<lparr>row_id = ''MCA-112'', row_name = ''Soni Priya'', status = ''Never Logged In'',
          focus = ''N/A'', last_event = PStr ''None'', timestamp = ''N/A''\<rparr>]"
  have has_event: "\<exists>e \<in> set [?e1, ?e2]. user_id e = PStr (row_id (?rows ! 0))"
    by simp
  have first: "0 < length ?rows"
    by simp
  obtain e where e: "e \<in> set [?e1, ?e2]"
    and newest: "\<forall>e' \<in> set [?e1, ?e2]. user_id e' = PStr (row_id (?rows ! 0)) \<longrightarrow>
                   server_timestamp e' \<le> server_timestamp e"
    and shown: "timestamp (?rows ! 0) = isoformat (server_timestamp e + IST_OFFSET)"
    using displayed_timestamp [OF example_report first has_event] by blast
  have "server_timestamp ?e2 \<le> server_timestamp e"
    using newest by simp
  then have "e = ?e2"
    using e by auto
  then have "timestamp (?rows ! 0) = isoformat (63839664000000000 + IST_OFFSET)"
    using shown by simp
  then show ?thesis
    using example_report unfolding new_year_2024 by simp
qed

end
